theory Spec2Isabelle
  imports Complex_Main "HOL-Library.Sublist"
begin

section \<open>JavaScript strings\<close>

text \<open>
  A JavaScript string is modelled as a \<open>string\<close> whose characters stand for the code
  units below 256 (the Latin-1 range).  The built-in methods the dashboard code calls are
  written out here on that range: \<open>trim\<close>, \<open>toLowerCase\<close>, \<open>includes\<close>,
  \<open>split\<close> on a separator character and on the pattern \<open>/\\r?\\n/\<close>.
\<close>

definition isWhiteSpace :: "char \<Rightarrow> bool" where
  "isWhiteSpace c =
     (c \<in> set [CHR 0x09, CHR 0x0A, CHR 0x0B, CHR 0x0C, CHR 0x0D, CHR 0x20, CHR 0xA0])"

definition trimStart :: "string \<Rightarrow> string" where
  "trimStart s = dropWhile isWhiteSpace s"

definition trim :: "string \<Rightarrow> string" where
  "trim s = rev (dropWhile isWhiteSpace (rev (dropWhile isWhiteSpace s)))"

definition isUpperChar :: "char \<Rightarrow> bool" where
  "isUpperChar c =
     (let n = (of_char c :: nat)
      in (65 \<le> n \<and> n \<le> 90) \<or> (192 \<le> n \<and> n \<le> 222 \<and> n \<noteq> 215))"

definition toLowerChar :: "char \<Rightarrow> char" where
  "toLowerChar c =
     (if isUpperChar c
      then (case c of Char b0 b1 b2 b3 b4 b5 b6 b7 \<Rightarrow> Char b0 b1 b2 b3 b4 True b6 b7)
      else c)"

definition toLowerCase :: "string \<Rightarrow> string" where
  "toLowerCase s = map toLowerChar s"

text \<open>\<open>s.includes(k)\<close>: \<open>k\<close> occurs in \<open>s\<close> as a contiguous substring.\<close>

fun includesStr :: "string \<Rightarrow> string \<Rightarrow> bool" where
  "includesStr [] k = (k = [])"
| "includesStr (c # cs) k = (prefix k (c # cs) \<or> includesStr cs k)"

text \<open>\<open>s.split(sep)\<close> for a one-character separator: always at least one piece.\<close>

fun splitOn :: "char \<Rightarrow> string \<Rightarrow> string list" where
  "splitOn sep [] = [[]]"
| "splitOn sep (c # cs) =
     (if c = sep then [] # splitOn sep cs
      else (case splitOn sep cs of l # ls \<Rightarrow> (c # l) # ls | [] \<Rightarrow> [[c]]))"

text \<open>\<open>s.split(/\\r?\\n/)\<close>: a line feed, or a carriage return directly followed by a
  line feed, ends a piece.\<close>

fun splitLines :: "string \<Rightarrow> string list" where
  "splitLines [] = [[]]"
| "splitLines [c] = (if c = CHR 0x0A then [[], []] else [[c]])"
| "splitLines (c # d # cs) =
     (if c = CHR 0x0A then [] # splitLines (d # cs)
      else if c = CHR 0x0D \<and> d = CHR 0x0A then [] # splitLines cs
      else (case splitLines (d # cs) of l # ls \<Rightarrow> (c # l) # ls | [] \<Rightarrow> [[c]]))"

text \<open>\<open>row[i]\<close> on an array: \<open>None\<close> is JavaScript's \<open>undefined\<close>, the value of an
  index past the end.\<close>

definition cell :: "'a list \<Rightarrow> nat \<Rightarrow> 'a option" where
  "cell row i = (if i < length row then Some (row ! i) else None)"

text \<open>\<open>!value\<close> on a string or \<open>undefined\<close>: true for \<open>undefined\<close> and the empty
  string.\<close>

definition falsy :: "string option \<Rightarrow> bool" where
  "falsy v = (case v of None \<Rightarrow> True | Some s \<Rightarrow> s = [])"

text \<open>\<open>headers.indexOf(h)\<close>, used in the source only on members of \<open>headers\<close>:
  the index of the first occurrence, \<open>None\<close> for JavaScript's \<open>-1\<close>.\<close>

fun indexOf :: "'a list \<Rightarrow> 'a \<Rightarrow> nat option" where
  "indexOf [] x = None"
| "indexOf (y # ys) x = (if y = x then Some 0 else map_option Suc (indexOf ys x))"


section \<open>CSV parser (backend/dashboard/analyze.ts)\<close>

record ParseResult =
  headers :: "string list"
  rows :: "string list list"

datatype csv_error =
    CsvEmpty
  | NoValidLines
  | HeaderLineMissing
  | NoHeaders
  | DuplicateHeaders "string list"
  | RowError nat nat nat

text \<open>
  \<open>parseCSVLine\<close>: the while loop over the characters of the line, with the loop state
  \<open>result\<close>, \<open>current\<close>, \<open>inQuotes\<close>; the remaining characters stand for the
  index \<open>i\<close>.  A quote inside quotes that is followed by a quote is an escaped quote and
  consumes both characters.
\<close>

fun parseCSVLineLoop :: "string list \<Rightarrow> string \<Rightarrow> bool \<Rightarrow> string \<Rightarrow> string list" where
  "parseCSVLineLoop result current inQuotes [] = result @ [trim current]"
| "parseCSVLineLoop result current inQuotes [c] =
     (if c = CHR 0x22 then parseCSVLineLoop result current (\<not> inQuotes) []
      else if c = CHR '','' \<and> \<not> inQuotes then parseCSVLineLoop (result @ [trim current]) [] inQuotes []
      else parseCSVLineLoop result (current @ [c]) inQuotes [])"
| "parseCSVLineLoop result current inQuotes (c # d # cs) =
     (if c = CHR 0x22 then
        (if inQuotes \<and> d = CHR 0x22
         then parseCSVLineLoop result (current @ [CHR 0x22]) inQuotes cs
         else parseCSVLineLoop result current (\<not> inQuotes) (d # cs))
      else if c = CHR '','' \<and> \<not> inQuotes
        then parseCSVLineLoop (result @ [trim current]) [] inQuotes (d # cs)
      else parseCSVLineLoop result (current @ [c]) inQuotes (d # cs))"

definition parseCSVLine :: "string \<Rightarrow> string list" where
  "parseCSVLine line = parseCSVLineLoop [] [] False line"

text \<open>The \<open>forEach\<close> over the headers that collects the duplicates: \<open>seen\<close> is the
  set of lower-cased headers met so far.\<close>

fun findDuplicates :: "string list \<Rightarrow> string list \<Rightarrow> string list" where
  "findDuplicates seen [] = []"
| "findDuplicates seen (h # hs) =
     (if toLowerCase h \<in> set seen
      then h # findDuplicates (toLowerCase h # seen) hs
      else findDuplicates (toLowerCase h # seen) hs)"

text \<open>The loop over the data lines: \<open>i\<close> is the loop index, so the line is reported as
  row \<open>i + 1\<close>; the first line whose field count differs from the header's aborts the
  parse.\<close>

fun parseRows :: "nat \<Rightarrow> nat \<Rightarrow> string list \<Rightarrow> csv_error + string list list" where
  "parseRows n i [] = Inr []"
| "parseRows n i (l # ls) =
     (let row = parseCSVLine l
      in if length row \<noteq> n then Inl (RowError (i + 1) (length row) n)
         else (case parseRows n (i + 1) ls of
                 Inl e \<Rightarrow> Inl e
               | Inr rs \<Rightarrow> Inr (row # rs)))"

definition nonBlankLines :: "string \<Rightarrow> string list" where
  "nonBlankLines content = filter (\<lambda>line. length (trim line) > 0) (splitLines content)"

definition parseCSVContent :: "string \<Rightarrow> csv_error + ParseResult" where
  "parseCSVContent csvContent =
     (if csvContent = [] \<or> length (trim csvContent) = 0 then Inl CsvEmpty
      else
        (case nonBlankLines csvContent of
           [] \<Rightarrow> Inl NoValidLines
         | headerLine # dataLines \<Rightarrow>
             if headerLine = [] then Inl HeaderLineMissing
             else
               (let hs = parseCSVLine headerLine
                in if length hs = 0 then Inl NoHeaders
                   else if length (findDuplicates [] hs) > 0
                     then Inl (DuplicateHeaders (findDuplicates [] hs))
                   else (case parseRows (length hs) 1 dataLines of
                           Inl e \<Rightarrow> Inl e
                         | Inr rs \<Rightarrow> Inr \<lparr> headers = hs, rows = rs \<rparr>))))"


section \<open>Upload validation (backend/dashboard/upload.ts)\<close>

datatype upload_error =
    InvalidCharacters
  | UploadEmpty
  | OnlyHeaders
  | MissingHeaderRow
  | TooFewColumns
  | EmptyColumnHeaders
  | ColumnMismatch nat nat nat
  | TooFewDataRows
  | ContentTooSmall

text \<open>The loop over the first data lines: line \<open>i\<close> of \<open>dataLines\<close> is reported as row
  \<open>i + 2\<close>; the fields are counted by a plain split on commas, quotes are not looked
  at.\<close>

fun checkDataLines :: "nat \<Rightarrow> nat \<Rightarrow> string list \<Rightarrow> upload_error + unit" where
  "checkDataLines n i [] = Inr ()"
| "checkDataLines n i (line # ls) =
     (let columns = splitOn (CHR '','') line
      in if length columns \<noteq> n then Inl (ColumnMismatch (i + 2) (length columns) n)
         else checkDataLines n (i + 1) ls)"

text \<open>
  \<open>validateCSVContent\<close>.  \<open>hasReplacementChar\<close> is the outcome of
  \<open>content.includes('\\uFFFD')\<close> on the decoded buffer: U+FFFD lies outside the range of
  code units modelled by \<open>string\<close>, so the test is passed in.
\<close>

definition validateCSVContent :: "bool \<Rightarrow> string \<Rightarrow> upload_error + unit" where
  "validateCSVContent hasReplacementChar content =
     (if hasReplacementChar then Inl InvalidCharacters
      else
        (let lines = nonBlankLines content
         in if length lines = 0 then Inl UploadEmpty
            else if length lines = 1 then Inl OnlyHeaders
            else
              (let headerLine = hd lines
               in if headerLine = [] \<or> length (trim headerLine) = 0 then Inl MissingHeaderRow
                  else
                    (let hs = map trim (splitOn (CHR '','') headerLine)
                     in if length hs < 2 then Inl TooFewColumns
                        else if length (filter (\<lambda>h. length h = 0) hs) > 0
                          then Inl EmptyColumnHeaders
                        else
                          (case checkDataLines (length hs) 0
                                  (take (min 6 (length lines) - 1) (drop 1 lines)) of
                             Inl e \<Rightarrow> Inl e
                           | Inr _ \<Rightarrow>
                               if length lines < 3 then Inl TooFewDataRows
                               else if length content < 50 then Inl ContentTooSmall
                               else Inr ())))))"


section \<open>The analyze endpoint: parsing and re-validation (analyze.ts)\<close>

datatype analyze_error =
    CsvParseError csv_error
  | NoColumns
  | NoDataRows
  | InsufficientData
  | NoFilteredData

text \<open>The part of \<open>analyze\<close> between the download and the filters: the file's text is
  parsed, a parse error becomes the endpoint's \<open>CSV_PARSE_ERROR\<close>, and the parsed
  table is validated.\<close>

definition parseAndValidate :: "string \<Rightarrow> analyze_error + ParseResult" where
  "parseAndValidate csvContent =
     (case parseCSVContent csvContent of
        Inl e \<Rightarrow> Inl (CsvParseError e)
      | Inr t \<Rightarrow>
          if length (headers t) = 0 then Inl NoColumns
          else if length (rows t) = 0 then Inl NoDataRows
          else if length (rows t) < 2 then Inl InsufficientData
          else Inr t)"


section \<open>JavaScript numbers and \<open>parseFloat\<close>\<close>

text \<open>
  A JavaScript number is \<open>NaN\<close>, an infinity, or a finite value; the finite values are
  modelled by the rationals their numerals denote (rounding to binary64 and the sign of
  zero are not modelled).  \<open>parseFloat\<close> follows ECMAScript: leading white space is
  skipped and the longest prefix that is a \<open>StrDecimalLiteral\<close> is read; when there is
  none the result is \<open>NaN\<close>.
\<close>

datatype jsnum = NaN | Fin rat | PosInf | NegInf

definition isNaN :: "jsnum \<Rightarrow> bool" where
  "isNaN x = (x = NaN)"

text \<open>\<open>a < b\<close> on numbers: false as soon as one side is \<open>NaN\<close>.\<close>

fun jsLess :: "jsnum \<Rightarrow> jsnum \<Rightarrow> bool" where
  "jsLess (Fin x) (Fin y) = (x < y)"
| "jsLess (Fin x) PosInf = True"
| "jsLess NegInf (Fin y) = True"
| "jsLess NegInf PosInf = True"
| "jsLess _ _ = False"

fun jsAdd :: "jsnum \<Rightarrow> jsnum \<Rightarrow> jsnum" where
  "jsAdd (Fin x) (Fin y) = Fin (x + y)"
| "jsAdd NaN _ = NaN"
| "jsAdd _ NaN = NaN"
| "jsAdd PosInf NegInf = NaN"
| "jsAdd NegInf PosInf = NaN"
| "jsAdd PosInf _ = PosInf"
| "jsAdd _ PosInf = PosInf"
| "jsAdd NegInf _ = NegInf"
| "jsAdd _ NegInf = NegInf"

definition jsNeg :: "jsnum \<Rightarrow> jsnum" where
  "jsNeg x = (case x of NaN \<Rightarrow> NaN | Fin r \<Rightarrow> Fin (- r) | PosInf \<Rightarrow> NegInf | NegInf \<Rightarrow> PosInf)"

definition isDigit :: "char \<Rightarrow> bool" where
  "isDigit c = (let n = (of_char c :: nat) in 48 \<le> n \<and> n \<le> 57)"

definition digitsValue :: "string \<Rightarrow> int" where
  "digitsValue ds = foldl (\<lambda>acc c. 10 * acc + (of_char c - 48)) 0 ds"

text \<open>An \<open>ExponentPart\<close> at the head of \<open>r\<close> (\<open>e\<close> or \<open>E\<close>, an optional sign,
  at least one digit): its value and the text after it; the exponent 0 and \<open>r\<close> itself
  when \<open>r\<close> does not start with a complete one.\<close>

definition exponentPart :: "string \<Rightarrow> int \<times> string" where
  "exponentPart r =
     (case r of
        [] \<Rightarrow> (0, r)
      | e # r1 \<Rightarrow>
          if e = CHR ''e'' \<or> e = CHR ''E'' then
            (case r1 of
               [] \<Rightarrow> (0, r)
             | sg # r2 \<Rightarrow>
                 if sg = CHR ''-'' \<or> sg = CHR ''+'' then
                   (if takeWhile isDigit r2 = [] then (0, r)
                    else ((if sg = CHR ''-'' then - 1 else 1) * digitsValue (takeWhile isDigit r2),
                          dropWhile isDigit r2))
                 else if takeWhile isDigit r1 = [] then (0, r)
                 else (digitsValue (takeWhile isDigit r1), dropWhile isDigit r1))
          else (0, r))"

definition scale10 :: "rat \<Rightarrow> int \<Rightarrow> rat" where
  "scale10 x e = (if 0 \<le> e then x * 10 ^ nat e else x / 10 ^ nat (- e))"

text \<open>The longest prefix of \<open>s\<close> that is a \<open>StrUnsignedDecimalLiteral\<close>
  (\<open>Infinity\<close>, or digits with an optional fraction and exponent, or a fraction that
  starts with the point): its value and the text after it; \<open>NaN\<close> when there is none.\<close>

definition unsignedDecimal :: "string \<Rightarrow> jsnum \<times> string" where
  "unsignedDecimal s =
     (if prefix ''Infinity'' s then (PosInf, drop 8 s)
      else
        (let ip = takeWhile isDigit s; r1 = dropWhile isDigit s
         in case r1 of
              [] \<Rightarrow> if ip = [] then (NaN, s) else (Fin (of_int (digitsValue ip)), [])
            | c # r2 \<Rightarrow>
                if c = CHR ''.'' then
                  (let fp = takeWhile isDigit r2; r3 = dropWhile isDigit r2
                   in if ip = [] \<and> fp = [] then (NaN, s)
                      else (Fin (scale10 (of_int (digitsValue (ip @ fp)))
                                   (fst (exponentPart r3) - int (length fp))),
                            snd (exponentPart r3)))
                else if ip = [] then (NaN, s)
                else (Fin (scale10 (of_int (digitsValue ip)) (fst (exponentPart r1))),
                      snd (exponentPart r1))))"

text \<open>\<open>StrDecimalLiteral\<close>: an optional sign before the unsigned literal.\<close>

definition strDecimalLiteral :: "string \<Rightarrow> jsnum \<times> string" where
  "strDecimalLiteral s =
     (case s of
        [] \<Rightarrow> (NaN, s)
      | c # r \<Rightarrow>
          if c = CHR ''-'' then (jsNeg (fst (unsignedDecimal r)), snd (unsignedDecimal r))
          else if c = CHR ''+'' then unsignedDecimal r
          else unsignedDecimal s)"

definition parseFloat :: "string \<Rightarrow> jsnum" where
  "parseFloat s = fst (strDecimalLiteral (trimStart s))"

text \<open>
  \<open>Number(s)\<close> on a string: white space is trimmed on both sides, the empty string is 0,
  and otherwise the whole text has to be a \<open>StrDecimalLiteral\<close> or a binary, octal or
  hexadecimal integer literal.
\<close>

definition digitOfBase :: "int \<Rightarrow> char \<Rightarrow> int option" where
  "digitOfBase b c =
     (let n = (of_char c :: int);
          d = (if 48 \<le> n \<and> n \<le> 57 then Some (n - 48)
               else if 97 \<le> n \<and> n \<le> 102 then Some (n - 87)
               else if 65 \<le> n \<and> n \<le> 70 then Some (n - 55)
               else None)
      in case d of None \<Rightarrow> None | Some v \<Rightarrow> if v < b then Some v else None)"

definition baseValue :: "int \<Rightarrow> string \<Rightarrow> int option" where
  "baseValue b ds =
     (if ds = [] \<or> list_ex (\<lambda>c. digitOfBase b c = None) ds then None
      else Some (foldl (\<lambda>acc c. b * acc + the (digitOfBase b c)) 0 ds))"

definition nonDecimalLiteral :: "string \<Rightarrow> int option" where
  "nonDecimalLiteral s =
     (case s of
        z # x # ds \<Rightarrow>
          if z \<noteq> CHR ''0'' then None
          else if x = CHR ''x'' \<or> x = CHR ''X'' then baseValue 16 ds
          else if x = CHR ''o'' \<or> x = CHR ''O'' then baseValue 8 ds
          else if x = CHR ''b'' \<or> x = CHR ''B'' then baseValue 2 ds
          else None
      | _ \<Rightarrow> None)"

definition toNumber :: "string \<Rightarrow> jsnum" where
  "toNumber s =
     (let t = trim s
      in if t = [] then Fin 0
         else (case nonDecimalLiteral t of
                 Some n \<Rightarrow> Fin (of_int n)
               | None \<Rightarrow> if snd (strDecimalLiteral t) = [] then fst (strDecimalLiteral t) else NaN))"

text \<open>\<open>ToIntegerOrInfinity\<close> on a finite number: the fraction is dropped.\<close>

definition toInteger :: "rat \<Rightarrow> int" where
  "toInteger x = (if 0 \<le> x then \<lfloor>x\<rfloor> else \<lceil>x\<rceil>)"

text \<open>\<open>value.replace(/[$,%]/g, '')\<close>.\<close>

definition stripFormatting :: "string \<Rightarrow> string" where
  "stripFormatting v = filter (\<lambda>c. c \<noteq> CHR ''$'' \<and> c \<noteq> CHR '','' \<and> c \<noteq> CHR ''%'') v"

text \<open>\<open>parseNumericValue\<close>: the argument is a cell, so it may be \<open>undefined\<close>.  Both a
  missing cell and an unparseable one give 0, never \<open>NaN\<close>.\<close>

definition parseNumericValue :: "string option \<Rightarrow> jsnum" where
  "parseNumericValue v =
     (if falsy v then Fin 0
      else (let num = parseFloat (stripFormatting (the v))
            in if isNaN num then Fin 0 else num))"


section \<open>Column classifier (analyze.ts)\<close>

definition dateKeywords :: "string list" where
  "dateKeywords =
     [''date'', ''time'', ''day'', ''month'', ''year'', ''created'', ''updated'', ''timestamp'']"

definition numericKeywords :: "string list" where
  "numericKeywords =
     [''count'', ''total'', ''sum'', ''amount'', ''value'', ''price'', ''cost'', ''revenue'',
      ''sales'', ''clicks'', ''impressions'', ''views'', ''sessions'', ''users'', ''conversion'',
      ''rate'', ''ctr'', ''cpc'', ''cpm'', ''roas'', ''roi'', ''bounce'', ''duration'', ''pages'',
      ''goal'']"

definition categoricalKeywords :: "string list" where
  "categoricalKeywords =
     [''category'', ''type'', ''source'', ''medium'', ''campaign'', ''channel'', ''device'',
      ''browser'', ''country'', ''region'', ''city'', ''gender'', ''age'', ''segment'',
      ''status'', ''group'', ''class'', ''tag'', ''label'']"

definition hasKeyword :: "string list \<Rightarrow> string \<Rightarrow> bool" where
  "hasKeyword keywords header = list_ex (\<lambda>keyword. includesStr (toLowerCase header) keyword) keywords"

text \<open>\<open>headers.filter((header, index) => p(header, index))\<close>.\<close>

definition filterIndexed :: "('a \<Rightarrow> nat \<Rightarrow> bool) \<Rightarrow> 'a list \<Rightarrow> 'a list" where
  "filterIndexed p xs = map fst (filter (\<lambda>(x, i). p x i) (zip xs [0..<length xs]))"

definition findDateColumns :: "string list \<Rightarrow> string list" where
  "findDateColumns hs = filter (hasKeyword dateKeywords) hs"

text \<open>
  \<open>findNumericColumns\<close>.  The sample is at most 10 rows, so \<open>sampleSize * 0.7\<close> is
  computed without rounding error where it matters, and \<open>numericCount > sampleSize * 0.7\<close>
  is \<open>10 * numericCount > 7 * sampleSize\<close>.
\<close>

definition numericCount :: "string list list \<Rightarrow> nat \<Rightarrow> nat" where
  "numericCount sample index =
     foldl (\<lambda>count row.
              if falsy (cell row index) then count
              else if \<not> isNaN (parseFloat (stripFormatting (the (cell row index))))
                then count + 1 else count) 0 sample"

definition isNumericHeader :: "string list list \<Rightarrow> string \<Rightarrow> nat \<Rightarrow> bool" where
  "isNumericHeader rs header index =
     (let hasNumericKeyword = hasKeyword numericKeywords header;
          sampleSize = min 10 (length rs);
          isNumericColumn = (10 * numericCount (take sampleSize rs) index > 7 * sampleSize)
      in hasNumericKeyword \<or> isNumericColumn)"

definition findNumericColumns :: "string list \<Rightarrow> string list list \<Rightarrow> string list" where
  "findNumericColumns hs rs = filterIndexed (isNumericHeader rs) hs"

text \<open>
  \<open>findCategoricalColumns\<close>.  The \<open>Set\<close> of the sampled cells is counted with
  \<open>remdups\<close>; a missing cell is the member \<open>undefined\<close>.  The sample is at most 20
  rows and \<open>size < sampleSize * 0.8\<close> is \<open>5 * size < 4 * sampleSize\<close>.
\<close>

definition isCategoricalHeader :: "string list list \<Rightarrow> string \<Rightarrow> nat \<Rightarrow> bool" where
  "isCategoricalHeader rs header index =
     (let hasCategoricalKeyword = hasKeyword categoricalKeywords header;
          sampleSize = min 20 (length rs);
          uniqueValues = remdups (map (\<lambda>row. cell row index) (take sampleSize rs));
          isGoodCategorical = (length uniqueValues > 1 \<and> 5 * length uniqueValues < 4 * sampleSize)
      in hasCategoricalKeyword \<or> isGoodCategorical)"

definition findCategoricalColumns :: "string list \<Rightarrow> string list list \<Rightarrow> string list" where
  "findCategoricalColumns hs rs = filterIndexed (isCategoricalHeader rs) hs"


section \<open>Filter engine (analyze.ts)\<close>

record DateRange =
  startDate :: "string option"
  endDate :: "string option"

record FilterOptions =
  dateRange :: "DateRange option"
  selectedMetrics :: "string list option"
  selectedCategories :: "string list option"
  minValue :: "jsnum option"
  maxValue :: "jsnum option"

text \<open>The entries of \<open>appliedFilters\<close>: the source builds a description string for each
  filter it applied; the model keeps what the description is built from.\<close>

datatype applied_filter =
    AppliedDateRange "string option" "string option"
  | AppliedMetrics "string list"
  | AppliedCategories "string list"
  | AppliedValueRange "jsnum option" "jsnum option"

record FilteredData =
  filteredRows :: "string list list"
  appliedFilters :: "applied_filter list"

text \<open>\<open>filters.dateRange?.startDate\<close> as a condition: present and not the empty
  string.\<close>

definition truthyStr :: "string option \<Rightarrow> bool" where
  "truthyStr v = (\<not> falsy v)"

definition rangeStart :: "FilterOptions \<Rightarrow> string option" where
  "rangeStart f = (case dateRange f of None \<Rightarrow> None | Some dr \<Rightarrow> startDate dr)"

definition rangeEnd :: "FilterOptions \<Rightarrow> string option" where
  "rangeEnd f = (case dateRange f of None \<Rightarrow> None | Some dr \<Rightarrow> endDate dr)"

text \<open>
  The three row predicates handed to \<open>filteredRows.filter\<close>.  \<open>new Date(s)\<close> is the
  engine's date parser, a parameter \<open>parseDate\<close> of the model: it gives the time value
  of the date, \<open>None\<close> for an invalid date.  A bound is \<open>None\<close> when the filter does
  not set it (\<open>null\<close> in the source) and \<open>Some None\<close> when it is set to a string that
  does not parse; a comparison with an invalid date is false.
\<close>

definition dateBefore :: "int option \<Rightarrow> int option \<Rightarrow> bool" where
  "dateBefore a b = (case (a, b) of (Some x, Some y) \<Rightarrow> x < y | _ \<Rightarrow> False)"

definition dateRowKept ::
  "(string \<Rightarrow> int option) \<Rightarrow> nat \<Rightarrow> int option option \<Rightarrow> int option option \<Rightarrow> string list \<Rightarrow> bool" where
  "dateRowKept parseDate dateColIndex startD endD row =
     (let dateValue = cell row dateColIndex
      in if falsy dateValue then True
         else
           (let rowDate = parseDate (the dateValue)
            in if rowDate = None then True
               else if startD \<noteq> None \<and> dateBefore rowDate (the startD) then False
               else if endD \<noteq> None \<and> dateBefore (the endD) rowDate then False
               else True))"

definition categoryRowKept :: "nat \<Rightarrow> string list \<Rightarrow> string list \<Rightarrow> bool" where
  "categoryRowKept categoryColIndex selected row =
     (let categoryValue = cell row categoryColIndex
      in falsy categoryValue \<or> the categoryValue \<in> set selected)"

definition valueRowKept :: "nat \<Rightarrow> jsnum option \<Rightarrow> jsnum option \<Rightarrow> string list \<Rightarrow> bool" where
  "valueRowKept primaryMetricIndex minV maxV row =
     (let v = parseNumericValue (cell row primaryMetricIndex)
      in if isNaN v then True
         else if minV \<noteq> None \<and> jsLess v (the minV) then False
         else if maxV \<noteq> None \<and> jsLess (the maxV) v then False
         else True)"

text \<open>The three stages of \<open>applyFilters\<close>, each from the current \<open>filteredRows\<close> and
  \<open>appliedFilters\<close> to the next.  The categorical and numeric columns are looked up in
  the rows the function was called with, not in the rows filtered so far.\<close>

definition dateStage ::
  "(string \<Rightarrow> int option) \<Rightarrow> string list \<Rightarrow> FilterOptions \<Rightarrow> FilteredData \<Rightarrow> FilteredData" where
  "dateStage parseDate hs f d =
     (if truthyStr (rangeStart f) \<or> truthyStr (rangeEnd f) then
        (case findDateColumns hs of
           [] \<Rightarrow> d
         | dateCol # _ \<Rightarrow>
             (let dateColIndex = the (indexOf hs dateCol);
                  startD = (if truthyStr (rangeStart f) then Some (parseDate (the (rangeStart f))) else None);
                  endD = (if truthyStr (rangeEnd f) then Some (parseDate (the (rangeEnd f))) else None)
              in \<lparr> filteredRows = filter (dateRowKept parseDate dateColIndex startD endD) (filteredRows d),
                    appliedFilters = appliedFilters d @ [AppliedDateRange (rangeStart f) (rangeEnd f)] \<rparr>))
      else d)"

definition metricStage :: "FilterOptions \<Rightarrow> FilteredData \<Rightarrow> FilteredData" where
  "metricStage f d =
     (case selectedMetrics f of
        None \<Rightarrow> d
      | Some ms \<Rightarrow>
          if length ms > 0
          then d \<lparr> appliedFilters := appliedFilters d @ [AppliedMetrics ms] \<rparr>
          else d)"

definition categoryStage ::
  "string list \<Rightarrow> string list list \<Rightarrow> FilterOptions \<Rightarrow> FilteredData \<Rightarrow> FilteredData" where
  "categoryStage hs rs f d =
     (case selectedCategories f of
        None \<Rightarrow> d
      | Some cs \<Rightarrow>
          if length cs > 0 then
            (case findCategoricalColumns hs rs of
               [] \<Rightarrow> d
             | categoryCol # _ \<Rightarrow>
                 (let categoryColIndex = the (indexOf hs categoryCol)
                  in \<lparr> filteredRows = filter (categoryRowKept categoryColIndex cs) (filteredRows d),
                        appliedFilters = appliedFilters d @ [AppliedCategories cs] \<rparr>))
          else d)"

definition valueStage ::
  "string list \<Rightarrow> string list list \<Rightarrow> FilterOptions \<Rightarrow> FilteredData \<Rightarrow> FilteredData" where
  "valueStage hs rs f d =
     (if minValue f \<noteq> None \<or> maxValue f \<noteq> None then
        (case findNumericColumns hs rs of
           [] \<Rightarrow> d
         | numericCol # _ \<Rightarrow>
             (let primaryMetricIndex = the (indexOf hs numericCol)
              in \<lparr> filteredRows = filter (valueRowKept primaryMetricIndex (minValue f) (maxValue f)) (filteredRows d),
                    appliedFilters = appliedFilters d @ [AppliedValueRange (minValue f) (maxValue f)] \<rparr>))
      else d)"

definition applyFilters ::
  "(string \<Rightarrow> int option) \<Rightarrow> string list \<Rightarrow> string list list \<Rightarrow> FilterOptions option \<Rightarrow> FilteredData" where
  "applyFilters parseDate hs rs filters =
     (case filters of
        None \<Rightarrow> \<lparr> filteredRows = rs, appliedFilters = [] \<rparr>
      | Some f \<Rightarrow>
          valueStage hs rs f
            (categoryStage hs rs f
               (metricStage f
                  (dateStage parseDate hs f \<lparr> filteredRows = rs, appliedFilters = [] \<rparr>))))"


subsection \<open>The row condition of each stage\<close>

text \<open>
  Each stage keeps the rows that satisfy a condition fixed by the headers, the filter
  specification and, for the category and value stages, the list of categorical or numeric
  columns found.  The conditions are named here so that the result of \<open>applyFilters\<close> can
  be described as one \<open>filter\<close>; a stage that does not apply has the condition \<open>True\<close>.
\<close>

definition dateCond :: "(string \<Rightarrow> int option) \<Rightarrow> string list \<Rightarrow> FilterOptions \<Rightarrow> string list \<Rightarrow> bool" where
  "dateCond parseDate hs f row =
     (if truthyStr (rangeStart f) \<or> truthyStr (rangeEnd f) then
        (case findDateColumns hs of
           [] \<Rightarrow> True
         | dateCol # _ \<Rightarrow>
             dateRowKept parseDate (the (indexOf hs dateCol))
               (if truthyStr (rangeStart f) then Some (parseDate (the (rangeStart f))) else None)
               (if truthyStr (rangeEnd f) then Some (parseDate (the (rangeEnd f))) else None) row)
      else True)"

definition categoryCond :: "string list \<Rightarrow> string list \<Rightarrow> FilterOptions \<Rightarrow> string list \<Rightarrow> bool" where
  "categoryCond hs categoricalColumns f row =
     (case selectedCategories f of
        None \<Rightarrow> True
      | Some cs \<Rightarrow>
          if length cs > 0 then
            (case categoricalColumns of
               [] \<Rightarrow> True
             | categoryCol # _ \<Rightarrow> categoryRowKept (the (indexOf hs categoryCol)) cs row)
          else True)"

definition valueCond :: "string list \<Rightarrow> string list \<Rightarrow> FilterOptions \<Rightarrow> string list \<Rightarrow> bool" where
  "valueCond hs numericColumns f row =
     (if minValue f \<noteq> None \<or> maxValue f \<noteq> None then
        (case numericColumns of
           [] \<Rightarrow> True
         | numericCol # _ \<Rightarrow>
             valueRowKept (the (indexOf hs numericCol)) (minValue f) (maxValue f) row)
      else True)"

text \<open>
  Two ways of conjoining filter specifications.  The first is the sequential AND of the
  filter engine: the second specification is applied to the rows the first one kept.  The
  second is one specification \<open>c\<close> that carries every constraint of \<open>a\<close> and possibly
  more: \<open>c\<close> agrees with \<open>a\<close> on each bound and category selection that \<open>a\<close> sets
  (a date bound is set when it is a non-empty string, a category selection when it is a
  non-empty list).
\<close>

definition applyBoth ::
  "(string \<Rightarrow> int option) \<Rightarrow> string list \<Rightarrow> string list list \<Rightarrow>
   FilterOptions option \<Rightarrow> FilterOptions option \<Rightarrow> string list list" where
  "applyBoth parseDate hs rs a b =
     filteredRows (applyFilters parseDate hs (filteredRows (applyFilters parseDate hs rs a)) b)"

definition carriesConstraints :: "FilterOptions \<Rightarrow> FilterOptions \<Rightarrow> bool" where
  "carriesConstraints a c =
     ((truthyStr (rangeStart a) \<longrightarrow> rangeStart c = rangeStart a) \<and>
      (truthyStr (rangeEnd a) \<longrightarrow> rangeEnd c = rangeEnd a) \<and>
      (case selectedCategories a of
         None \<Rightarrow> True
       | Some cs \<Rightarrow> length cs > 0 \<longrightarrow> selectedCategories c = Some cs) \<and>
      (minValue a \<noteq> None \<longrightarrow> minValue c = minValue a) \<and>
      (maxValue a \<noteq> None \<longrightarrow> maxValue c = maxValue a))"


section \<open>Dates (ECMAScript time values)\<close>

text \<open>
  A \<open>Date\<close> holds a time value, the milliseconds since 1970-01-01T00:00:00Z, or is
  invalid; it is modelled as \<open>int option\<close>, \<open>None\<close> for the invalid date.  The day
  arithmetic follows the abstract operations of ECMAScript (\<open>Day\<close>, \<open>DayFromYear\<close>,
  \<open>YearFromTime\<close>, \<open>MonthFromTime\<close>, \<open>DateFromTime\<close>, \<open>WeekDay\<close>, \<open>MakeDay\<close>,
  \<open>MakeDate\<close>, \<open>TimeClip\<close>) on day numbers.  Months count from 0.
\<close>

definition msPerDay :: int where
  "msPerDay = 86400000"

definition dayOf :: "int \<Rightarrow> int" where
  "dayOf t = t div msPerDay"

definition timeWithinDay :: "int \<Rightarrow> int" where
  "timeWithinDay t = t mod msPerDay"

definition dayFromYear :: "int \<Rightarrow> int" where
  "dayFromYear y = 365 * (y - 1970) + (y - 1969) div 4 - (y - 1901) div 100 + (y - 1601) div 400"

text \<open>The largest year whose first day is not after day \<open>z\<close>, found from an estimate that
  is off by at most one year.\<close>

definition yearFromDay :: "int \<Rightarrow> int" where
  "yearFromDay z =
     (let y = 1970 + (z * 400) div 146097
      in if z < dayFromYear y then y - 1
         else if dayFromYear (y + 1) \<le> z then y + 1
         else y)"

definition inLeapYear :: "int \<Rightarrow> int" where
  "inLeapYear y = (if dayFromYear (y + 1) - dayFromYear y = 366 then 1 else 0)"

definition dayWithinYear :: "int \<Rightarrow> int" where
  "dayWithinYear z = z - dayFromYear (yearFromDay z)"

text \<open>The day within the year on which month \<open>m\<close> starts; \<open>leap\<close> is 1 in a leap year.\<close>

definition monthStart :: "int \<Rightarrow> int \<Rightarrow> int" where
  "monthStart leap m =
     (if m \<le> 0 then 0
      else if m = 1 then 31
      else if m = 2 then 59 + leap
      else if m = 3 then 90 + leap
      else if m = 4 then 120 + leap
      else if m = 5 then 151 + leap
      else if m = 6 then 181 + leap
      else if m = 7 then 212 + leap
      else if m = 8 then 243 + leap
      else if m = 9 then 273 + leap
      else if m = 10 then 304 + leap
      else 334 + leap)"

definition monthFromDay :: "int \<Rightarrow> int" where
  "monthFromDay z =
     (let d = dayWithinYear z; leap = inLeapYear (yearFromDay z)
      in if d < 31 then 0
         else if d < 59 + leap then 1
         else if d < 90 + leap then 2
         else if d < 120 + leap then 3
         else if d < 151 + leap then 4
         else if d < 181 + leap then 5
         else if d < 212 + leap then 6
         else if d < 243 + leap then 7
         else if d < 273 + leap then 8
         else if d < 304 + leap then 9
         else if d < 334 + leap then 10
         else 11)"

definition dateFromDay :: "int \<Rightarrow> int" where
  "dateFromDay z =
     dayWithinYear z - monthStart (inLeapYear (yearFromDay z)) (monthFromDay z) + 1"

definition weekDay :: "int \<Rightarrow> int" where
  "weekDay z = (z + 4) mod 7"

text \<open>\<open>MakeDay(year, month, date)\<close>: the day number of the first day of the month, the
  month taken modulo 12 with the carry added to the year, plus \<open>date - 1\<close>; a date
  outside the month runs over into the neighbouring months.\<close>

definition makeDay :: "int \<Rightarrow> int \<Rightarrow> int \<Rightarrow> int" where
  "makeDay year month date =
     (let ym = year + month div 12; mn = month mod 12
      in dayFromYear ym + monthStart (inLeapYear ym) mn + date - 1)"

definition makeDate :: "int \<Rightarrow> int \<Rightarrow> int" where
  "makeDate day time = day * msPerDay + time"

definition timeClip :: "int \<Rightarrow> int option" where
  "timeClip t = (if \<bar>t\<bar> > 8640000000000000 then None else Some t)"

text \<open>
  The methods of \<open>Date\<close> that \<open>calculateNextRun\<close> calls.  They work in the local time of
  the host.  The host's time zone is a parameter \<open>zone\<close> of the model, ECMAScript's
  \<open>LocalTZA(t, isUTC)\<close>: the offset of local time from UTC, in milliseconds, in effect at
  the UTC time value \<open>t\<close> (\<open>isUTC\<close> true) or at the local time value \<open>t\<close>
  (\<open>isUTC\<close> false).  The offset may change with \<open>t\<close>, as it does on a host with
  daylight-saving time.
\<close>

type_synonym timeZone = "int \<Rightarrow> bool \<Rightarrow> int"

definition localTime :: "timeZone \<Rightarrow> int \<Rightarrow> int" where
  "localTime zone t = t + zone t True"

definition utcTime :: "timeZone \<Rightarrow> int \<Rightarrow> int" where
  "utcTime zone t = t - zone t False"

definition setHours :: "timeZone \<Rightarrow> int option \<Rightarrow> jsnum \<Rightarrow> jsnum \<Rightarrow> int option" where
  "setHours zone d hour minute =
     (case d of
        None \<Rightarrow> None
      | Some t \<Rightarrow>
          (case (hour, minute) of
             (Fin h, Fin m) \<Rightarrow>
               timeClip (utcTime zone
                 (makeDate (dayOf (localTime zone t))
                    (toInteger h * 3600000 + toInteger m * 60000)))
           | _ \<Rightarrow> None))"

definition getDate :: "timeZone \<Rightarrow> int \<Rightarrow> int" where
  "getDate zone t = dateFromDay (dayOf (localTime zone t))"

definition getMonth :: "timeZone \<Rightarrow> int \<Rightarrow> int" where
  "getMonth zone t = monthFromDay (dayOf (localTime zone t))"

definition getDay :: "timeZone \<Rightarrow> int \<Rightarrow> int" where
  "getDay zone t = weekDay (dayOf (localTime zone t))"

definition setDate :: "timeZone \<Rightarrow> int \<Rightarrow> int \<Rightarrow> int option" where
  "setDate zone t date =
     timeClip (utcTime zone
       (makeDate (makeDay (yearFromDay (dayOf (localTime zone t)))
                    (monthFromDay (dayOf (localTime zone t))) date)
          (timeWithinDay (localTime zone t))))"

definition setMonth :: "timeZone \<Rightarrow> int \<Rightarrow> int \<Rightarrow> int option" where
  "setMonth zone t month =
     timeClip (utcTime zone
       (makeDate (makeDay (yearFromDay (dayOf (localTime zone t))) month
                    (dateFromDay (dayOf (localTime zone t))))
          (timeWithinDay (localTime zone t))))"

text \<open>
  Two host zones, for examples.  \<open>fixedZone\<close> is a zone without daylight-saving time, at a
  constant offset.  \<open>easternSpring2024\<close> is US Eastern time around its change to
  daylight-saving time on 2024-03-10: five hours behind UTC before 07:00 UTC of that day
  (time value 1710054000000) and four hours behind from then on; a local time is read with
  the earlier offset up to 03:00 local time of that day, which covers the skipped hour.
\<close>

definition fixedZone :: "int \<Rightarrow> timeZone" where
  "fixedZone offset t isUTC = offset"

definition easternSpring2024 :: timeZone where
  "easternSpring2024 t isUTC =
     (if isUTC then (if t < 1710054000000 then - 18000000 else - 14400000)
      else (if t < 1710039600000 then - 18000000 else - 14400000))"

text \<open>An instance of the engine's date parser, for examples: it reads the date-only ISO
  form \<open>YYYY-MM-DD\<close> as midnight UTC and rejects every other string.\<close>

definition parseISODate :: "string \<Rightarrow> int option" where
  "parseISODate s =
     (if length s = 10 \<and> s ! 4 = CHR ''-'' \<and> s ! 7 = CHR ''-'' \<and>
         list_all isDigit (take 4 s @ take 2 (drop 5 s) @ drop 8 s)
      then
        (let y = digitsValue (take 4 s);
             m = digitsValue (take 2 (drop 5 s));
             d = digitsValue (drop 8 s)
         in if 1 \<le> m \<and> m \<le> 12 \<and> 1 \<le> d \<and> makeDay y (m - 1) (d + 1) \<le> makeDay y m 1
            then Some (makeDay y (m - 1) d * msPerDay)
            else None)
      else None)"


section \<open>Schedule calculator (the scheduler service)\<close>

text \<open>JavaScript's \<open>%\<close> on integers: the remainder has the sign of the dividend.\<close>

definition jsRem :: "int \<Rightarrow> int \<Rightarrow> int" where
  "jsRem a b = sgn a * (\<bar>a\<bar> mod \<bar>b\<bar>)"

text \<open>\<open>const [hours, minutes] = timeOfDay.split(':').map(Number)\<close>: a missing second
  piece leaves \<open>minutes\<close> undefined, which \<open>setHours\<close> converts to \<open>NaN\<close>.\<close>

definition timeFields :: "string \<Rightarrow> jsnum \<times> jsnum" where
  "timeFields timeOfDay =
     (case map toNumber (splitOn (CHR '':'') timeOfDay) of
        h # m # _ \<Rightarrow> (h, m)
      | [h] \<Rightarrow> (h, NaN)
      | [] \<Rightarrow> (NaN, NaN))"

text \<open>\<open>nextRun <= now\<close> on dates: false for an invalid date.\<close>

definition notAfter :: "int option \<Rightarrow> int \<Rightarrow> bool" where
  "notAfter d now = (case d of None \<Rightarrow> False | Some t \<Rightarrow> t \<le> now)"

text \<open>
  \<open>calculateNextRun\<close>.  \<open>zone\<close> is the host's time zone and \<open>now\<close> the time value of
  \<open>new Date()\<close>; the remaining arguments are the function's own, \<open>dayOfWeek\<close> and
  \<open>dayOfMonth\<close> being integers or undefined (\<open>None\<close>; a stored \<open>null\<close> is not
  \<open>undefined\<close> and counts as the number 0 in the arithmetic).  The \<open>timezone\<close> argument
  does not occur in the body.  Every method called on an invalid date leaves it invalid.
\<close>

definition calculateNextRun ::
  "timeZone \<Rightarrow> int \<Rightarrow> string \<Rightarrow> string \<Rightarrow> int option \<Rightarrow> int option \<Rightarrow> string \<Rightarrow> int option" where
  "calculateNextRun zone now frequency timeOfDay dayOfWeek dayOfMonth timezone =
     (let nextRun = setHours zone (Some now) (fst (timeFields timeOfDay)) (snd (timeFields timeOfDay))
      in if frequency = ''daily'' then
           (if notAfter nextRun now
            then setDate zone (the nextRun) (getDate zone (the nextRun) + 1)
            else nextRun)
         else if frequency = ''weekly'' then
           (case dayOfWeek of
              None \<Rightarrow> nextRun
            | Some dow \<Rightarrow>
                (case nextRun of
                   None \<Rightarrow> None
                 | Some t \<Rightarrow>
                     (let currentDay = getDay zone t;
                          daysUntilTarget = jsRem (dow - currentDay + 7) 7
                      in if daysUntilTarget = 0 \<and> notAfter nextRun now
                         then setDate zone t (getDate zone t + 7)
                         else setDate zone t (getDate zone t + daysUntilTarget))))
         else if frequency = ''monthly'' then
           (case dayOfMonth of
              None \<Rightarrow> nextRun
            | Some dayNo \<Rightarrow>
                (case nextRun of
                   None \<Rightarrow> None
                 | Some t \<Rightarrow>
                     (let moved = setDate zone t dayNo
                      in if notAfter moved now
                         then (case setMonth zone (the moved) (getMonth zone (the moved) + 1) of
                                 None \<Rightarrow> None
                               | Some t' \<Rightarrow> setDate zone t' dayNo)
                         else moved)))
         else nextRun)"


text \<open>On a host at the constant offset \<open>tz\<close>: the instant on the reference day, the
  day of \<open>now\<close> in local time, at \<open>h\<close> hours and \<open>m\<close> minutes of local time.\<close>

definition timeOnReferenceDay :: "int \<Rightarrow> int \<Rightarrow> int \<Rightarrow> int \<Rightarrow> int" where
  "timeOnReferenceDay tz now h m = dayOf (now + tz) * msPerDay + h * 3600000 + m * 60000 - tz"


section \<open>Chart builder (analyze.ts)\<close>

datatype chart_type = Line | Bar | Pie | Area

record ChartDataPoint =
  label :: string
  pointValue :: jsnum
  pointDate :: "string option"
  pointCategory :: "string option"

record ChartData =
  chartType :: chart_type
  chartTitle :: string
  chartData :: "ChartDataPoint list"
  xAxisLabel :: "string option"
  yAxisLabel :: "string option"
  colors :: "string list"

definition jsSub :: "jsnum \<Rightarrow> jsnum \<Rightarrow> jsnum" where
  "jsSub a b = jsAdd a (jsNeg b)"

text \<open>
  \<open>Array.prototype.sort\<close> with a comparison function: the sort is stable, an element
  moves behind another one only when the comparison is positive, and a comparison that
  yields \<open>NaN\<close> counts as 0.  (For a comparison that is not a consistent ordering the
  engine may return another permutation.)
\<close>

fun insertBy :: "('a \<Rightarrow> 'a \<Rightarrow> jsnum) \<Rightarrow> 'a \<Rightarrow> 'a list \<Rightarrow> 'a list" where
  "insertBy cmp x [] = [x]"
| "insertBy cmp x (y # ys) =
     (if jsLess (Fin 0) (cmp x y) then y # insertBy cmp x ys else x # y # ys)"

definition jsSort :: "('a \<Rightarrow> 'a \<Rightarrow> jsnum) \<Rightarrow> 'a list \<Rightarrow> 'a list" where
  "jsSort cmp xs = foldr (insertBy cmp) xs []"

text \<open>\<open>formatDateLabel\<close>: \<open>toLocaleDateString\<close> depends on the host's locale and is a
  parameter, like the date parser.\<close>

definition formatDateLabel :: "(string \<Rightarrow> int option) \<Rightarrow> (int \<Rightarrow> string) \<Rightarrow> string \<Rightarrow> string" where
  "formatDateLabel parseDate toLocaleDateString dateStr =
     (case parseDate dateStr of None \<Rightarrow> dateStr | Some t \<Rightarrow> toLocaleDateString t)"

text \<open>The \<open>rows.forEach\<close> that collects the points of a time series: a row gives a point
  when its date cell is a non-empty string and its numeric value is not \<open>NaN\<close>.\<close>

definition timeSeriesPoints ::
  "(string \<Rightarrow> int option) \<Rightarrow> (int \<Rightarrow> string) \<Rightarrow> nat \<Rightarrow> nat \<Rightarrow> string list list \<Rightarrow> ChartDataPoint list" where
  "timeSeriesPoints parseDate toLocaleDateString dateIndex numericIndex rs =
     concat (map (\<lambda>row.
       let dateValue = cell row dateIndex;
           numericValue = parseNumericValue (cell row numericIndex)
       in if truthyStr dateValue \<and> \<not> isNaN numericValue
          then [\<lparr> label = formatDateLabel parseDate toLocaleDateString (the dateValue),
                  pointValue = numericValue,
                  pointDate = Some (the dateValue),
                  pointCategory = None \<rparr>]
          else []) rs)"

text \<open>The comparison \<open>new Date(a.date || '').getTime() - new Date(b.date || '').getTime()\<close>.\<close>

definition dateOrEmpty :: "ChartDataPoint \<Rightarrow> string" where
  "dateOrEmpty p = (if truthyStr (pointDate p) then the (pointDate p) else [])"

definition compareByDate :: "(string \<Rightarrow> int option) \<Rightarrow> ChartDataPoint \<Rightarrow> ChartDataPoint \<Rightarrow> jsnum" where
  "compareByDate parseDate a b =
     (case (parseDate (dateOrEmpty a), parseDate (dateOrEmpty b)) of
        (Some x, Some y) \<Rightarrow> Fin (of_int (x - y))
      | _ \<Rightarrow> NaN)"

definition lineChartFor ::
  "(string \<Rightarrow> int option) \<Rightarrow> (int \<Rightarrow> string) \<Rightarrow> string list \<Rightarrow> string list list \<Rightarrow> nat \<Rightarrow> string \<Rightarrow> ChartData list" where
  "lineChartFor parseDate toLocaleDateString hs rs dateIndex numericCol =
     (let numericIndex = the (indexOf hs numericCol);
          timeSeriesData = timeSeriesPoints parseDate toLocaleDateString dateIndex numericIndex rs
      in if length timeSeriesData > 1
         then [\<lparr> chartType = Line,
                 chartTitle = numericCol @ '' Over Time'',
                 chartData = jsSort (compareByDate parseDate) timeSeriesData,
                 xAxisLabel = Some ''Date'',
                 yAxisLabel = Some numericCol,
                 colors = [''#3b82f6''] \<rparr>]
         else [])"

definition lineCharts ::
  "(string \<Rightarrow> int option) \<Rightarrow> (int \<Rightarrow> string) \<Rightarrow> string list \<Rightarrow> string list list \<Rightarrow> ChartData list" where
  "lineCharts parseDate toLocaleDateString hs rs =
     (let dateColumns = findDateColumns hs; numericColumns = findNumericColumns hs rs
      in if length dateColumns > 0 \<and> length numericColumns > 0
         then (let dateIndex = the (indexOf hs (hd dateColumns))
               in concat (map (lineChartFor parseDate toLocaleDateString hs rs dateIndex)
                            (take 3 numericColumns)))
         else [])"

text \<open>
  The grouped sums: a \<open>Record<string, number>\<close> filled by
  \<open>groupedData[group] = (groupedData[group] || 0) + value\<close>, kept as a list of entries in
  insertion order.  \<open>Object.entries\<close> lists the keys that are array indices first, in
  ascending order, and the other keys in insertion order.  Group names that are properties
  of \<open>Object.prototype\<close> are outside the model.
\<close>

fun addToGroup :: "(string \<times> jsnum) list \<Rightarrow> string \<Rightarrow> jsnum \<Rightarrow> (string \<times> jsnum) list" where
  "addToGroup [] g v = [(g, jsAdd (Fin 0) v)]"
| "addToGroup ((k, old) # kvs) g v =
     (if k = g then (k, jsAdd (if old = NaN \<or> old = Fin 0 then Fin 0 else old) v) # kvs
      else (k, old) # addToGroup kvs g v)"

definition groupSums :: "nat \<Rightarrow> nat \<Rightarrow> string list list \<Rightarrow> (string \<times> jsnum) list" where
  "groupSums groupingIndex metricIndex rs =
     foldl (\<lambda>groupedData row.
              let g = cell row groupingIndex;
                  v = parseNumericValue (cell row metricIndex)
              in if truthyStr g \<and> \<not> isNaN v then addToGroup groupedData (the g) v
                 else groupedData) [] rs"

definition isArrayIndex :: "string \<Rightarrow> bool" where
  "isArrayIndex k =
     (k \<noteq> [] \<and> list_all isDigit k \<and> (k = ''0'' \<or> hd k \<noteq> CHR ''0'') \<and>
      digitsValue k < 4294967295)"

definition objectEntries :: "(string \<times> 'a) list \<Rightarrow> (string \<times> 'a) list" where
  "objectEntries kvs =
     sort_key (\<lambda>kv. digitsValue (fst kv)) (filter (\<lambda>kv. isArrayIndex (fst kv)) kvs) @
     filter (\<lambda>kv. \<not> isArrayIndex (fst kv)) kvs"

definition shorten :: "nat \<Rightarrow> string \<Rightarrow> string" where
  "shorten n l = (if length l > n then take n l @ ''...'' else l)"

definition topGroups :: "nat \<Rightarrow> nat \<Rightarrow> (string \<times> jsnum) list \<Rightarrow> ChartDataPoint list" where
  "topGroups count width groupedData =
     map (\<lambda>kv. \<lparr> label = shorten width (fst kv), pointValue = snd kv,
                 pointDate = None, pointCategory = None \<rparr>)
       (take count (jsSort (\<lambda>a b. jsSub (snd b) (snd a)) (objectEntries groupedData)))"

text \<open>\<open>categoricalColumns[0] || headers.find(h => ...)\<close>: the first categorical column
  unless it is missing or the empty string, else the first header that is neither numeric
  nor a date column.\<close>

definition groupingColumn :: "string list \<Rightarrow> string list \<Rightarrow> string list \<Rightarrow> string list \<Rightarrow> string option" where
  "groupingColumn hs dateColumns numericColumns categoricalColumns =
     (if categoricalColumns \<noteq> [] \<and> hd categoricalColumns \<noteq> []
      then Some (hd categoricalColumns)
      else find (\<lambda>h. h \<notin> set numericColumns \<and> h \<notin> set dateColumns) hs)"

definition barCharts :: "string list \<Rightarrow> string list list \<Rightarrow> ChartData list" where
  "barCharts hs rs =
     (let dateColumns = findDateColumns hs;
          numericColumns = findNumericColumns hs rs;
          categoricalColumns = findCategoricalColumns hs rs
      in if length numericColumns > 0 then
           (let primaryMetric = hd numericColumns;
                metricIndex = the (indexOf hs primaryMetric);
                groupingCol = groupingColumn hs dateColumns numericColumns categoricalColumns
            in if truthyStr groupingCol then
                 (let groupingIndex = the (indexOf hs (the groupingCol));
                      barData = topGroups 10 20 (groupSums groupingIndex metricIndex rs)
                  in if length barData > 1
                     then [\<lparr> chartType = Bar,
                             chartTitle = ''Top '' @ the groupingCol @ '' by '' @ primaryMetric,
                             chartData = barData,
                             xAxisLabel = groupingCol,
                             yAxisLabel = Some primaryMetric,
                             colors = [''#10b981''] \<rparr>]
                     else [])
               else [])
         else [])"

definition pieCharts :: "string list \<Rightarrow> string list list \<Rightarrow> ChartData list" where
  "pieCharts hs rs =
     (let numericColumns = findNumericColumns hs rs;
          categoricalColumns = findCategoricalColumns hs rs
      in if length categoricalColumns > 0 \<and> length numericColumns > 0 then
           (let categoryCol = hd categoricalColumns;
                valueCol = hd numericColumns;
                categoryIndex = the (indexOf hs categoryCol);
                valueIndex = the (indexOf hs valueCol);
                pieData = topGroups 8 15 (groupSums categoryIndex valueIndex rs)
            in if length pieData > 1
               then [\<lparr> chartType = Pie,
                       chartTitle = valueCol @ '' Distribution by '' @ categoryCol,
                       chartData = pieData,
                       xAxisLabel = None,
                       yAxisLabel = None,
                       colors = [''#3b82f6'', ''#ef4444'', ''#10b981'', ''#f59e0b'',
                                 ''#8b5cf6'', ''#06b6d4'', ''#84cc16'', ''#f97316''] \<rparr>]
               else [])
         else [])"

definition columnTotal :: "string list \<Rightarrow> string list list \<Rightarrow> string \<Rightarrow> jsnum" where
  "columnTotal hs rs col =
     foldl (\<lambda>total row.
              let v = parseNumericValue (cell row (the (indexOf hs col)))
              in jsAdd total (if isNaN v then Fin 0 else v)) (Fin 0) rs"

definition comparisonCharts :: "string list \<Rightarrow> string list list \<Rightarrow> ChartData list" where
  "comparisonCharts hs rs =
     (let numericColumns = findNumericColumns hs rs
      in if length numericColumns > 1 then
           (let comparisonData =
                  map (\<lambda>col. \<lparr> label = shorten 15 col, pointValue = columnTotal hs rs col,
                                pointDate = None, pointCategory = None \<rparr>)
                    (take 5 numericColumns)
            in if length comparisonData > 1
               then [\<lparr> chartType = Bar,
                       chartTitle = ''Metrics Comparison'',
                       chartData = comparisonData,
                       xAxisLabel = Some ''Metrics'',
                       yAxisLabel = Some ''Total Value'',
                       colors = [''#6366f1''] \<rparr>]
               else [])
         else [])"

text \<open>\<open>generateChartData\<close>: the four blocks push their charts in this order.  The
  \<open>reportType\<close> argument is not used by the body.\<close>

definition generateChartData ::
  "(string \<Rightarrow> int option) \<Rightarrow> (int \<Rightarrow> string) \<Rightarrow> string list \<Rightarrow> string list list \<Rightarrow> string \<Rightarrow> ChartData list" where
  "generateChartData parseDate toLocaleDateString hs rs reportType =
     lineCharts parseDate toLocaleDateString hs rs @ barCharts hs rs @ pieCharts hs rs @
     comparisonCharts hs rs"

text \<open>Decimal numerals of natural numbers, as in template strings; and, for examples, an
  instance of \<open>toLocaleDateString\<close>: the \<open>en-US\<close> form month/day/year of the UTC date.\<close>

fun natToString :: "nat \<Rightarrow> string" where
  "natToString n =
     (if n < 10 then [''0123456789'' ! n]
      else natToString (n div 10) @ [''0123456789'' ! (n mod 10)])"

definition usDateString :: "int \<Rightarrow> string" where
  "usDateString t =
     natToString (nat (monthFromDay (dayOf t) + 1)) @ ''/'' @
     natToString (nat (dateFromDay (dayOf t))) @ ''/'' @
     natToString (nat (yearFromDay (dayOf t)))"

declare natToString.simps [simp del]

section \<open>Analysis orchestrator: the reply of the generation service (analyze.ts)\<close>

text \<open>
  The value that \<open>JSON.parse\<close> returns.  An object is the list of its properties, each
  key once.  \<open>JSON.parse\<close> itself is the engine's, a parameter \<open>jsonParse\<close> of the
  model that gives \<open>None\<close> where the engine throws.
\<close>

datatype json =
    JNull
  | JBool bool
  | JNumber jsnum
  | JString string
  | JArray "json list"
  | JObject "(string \<times> json) list"

text \<open>\<open>v.key\<close> for the keys the analysis reads (none of them is a property that arrays,
  strings or numbers have): \<open>None\<close> is \<open>undefined\<close>.\<close>

definition getProp :: "json \<Rightarrow> string \<Rightarrow> json option" where
  "getProp v key = (case v of JObject kvs \<Rightarrow> map_of kvs key | _ \<Rightarrow> None)"

text \<open>\<open>v && typeof v === 'object'\<close>: objects and arrays; \<open>null\<close> has the type
  \<open>'object'\<close> but is falsy.\<close>

definition isObjectLike :: "json \<Rightarrow> bool" where
  "isObjectLike v = (case v of JObject _ \<Rightarrow> True | JArray _ \<Rightarrow> True | _ \<Rightarrow> False)"

text \<open>\<open>typeof p === 'string' ? p : fallback\<close>.\<close>

definition stringOr :: "json option \<Rightarrow> string \<Rightarrow> string" where
  "stringOr p fallback = (case p of Some (JString s) \<Rightarrow> s | _ \<Rightarrow> fallback)"

datatype level = High | Medium | Low

text \<open>\<open>valid.includes(p) ? p : 'medium'\<close> for the three levels.\<close>

definition levelOr :: "json option \<Rightarrow> level" where
  "levelOr p =
     (if p = Some (JString ''high'') then High
      else if p = Some (JString ''medium'') then Medium
      else if p = Some (JString ''low'') then Low
      else Medium)"

record Insight =
  category :: string
  title :: string
  description :: string
  impact :: level
  metrics :: "json option"

record Recommendation =
  recTitle :: string
  recDescription :: string
  priority :: level
  effort :: level
  expectedImpact :: string

text \<open>\<open>validateInsight\<close> and \<open>validateRecommendation\<close>: \<open>None\<close> is the \<open>null\<close>
  returned for a value that is not an object.\<close>

definition validateInsight :: "json \<Rightarrow> Insight option" where
  "validateInsight insight =
     (if \<not> isObjectLike insight then None
      else Some \<lparr> category = stringOr (getProp insight ''category'') ''General'',
                  title = stringOr (getProp insight ''title'') ''Insight'',
                  description = stringOr (getProp insight ''description'') ''No description available'',
                  impact = levelOr (getProp insight ''impact''),
                  metrics = (case getProp insight ''metrics'' of
                               Some m \<Rightarrow> if isObjectLike m then Some m else None
                             | None \<Rightarrow> None) \<rparr>)"

definition validateRecommendation :: "json \<Rightarrow> Recommendation option" where
  "validateRecommendation recommendation =
     (if \<not> isObjectLike recommendation then None
      else Some \<lparr> recTitle = stringOr (getProp recommendation ''title'') ''Recommendation'',
                  recDescription =
                    stringOr (getProp recommendation ''description'') ''No description available'',
                  priority = levelOr (getProp recommendation ''priority''),
                  effort = levelOr (getProp recommendation ''effort''),
                  expectedImpact =
                    stringOr (getProp recommendation ''expectedImpact'') ''Positive impact expected'' \<rparr>)"

text \<open>\<open>xs.map(f).filter(Boolean)\<close>: the results that are not \<open>null\<close>, in order.\<close>

definition mapFilterBoolean :: "('a \<Rightarrow> 'b option) \<Rightarrow> 'a list \<Rightarrow> 'b list" where
  "mapFilterBoolean f xs = map the (filter (\<lambda>r. r \<noteq> None) (map f xs))"

record AnalysisResult =
  insights :: "Insight list"
  recommendations :: "Recommendation list"
  summary :: string
  keyMetrics :: "string \<rightharpoonup> jsnum"

text \<open>\<open>obj[key] = v\<close> on a plain object: the key \<open>__proto__\<close> is the prototype
  accessor, and assigning a number to it stores nothing.\<close>

definition setKey :: "(string \<rightharpoonup> jsnum) \<Rightarrow> string \<Rightarrow> jsnum \<Rightarrow> (string \<rightharpoonup> jsnum)" where
  "setKey m key v = (if key = ''__proto__'' then m else m(key \<mapsto> v))"

text \<open>The cell values of a column as numbers, 0 for a missing or unparseable cell (the
  inline copy of \<open>parseNumericValue\<close> in both functions below).\<close>

definition columnValues :: "string list list \<Rightarrow> nat \<Rightarrow> jsnum list" where
  "columnValues rs index = map (\<lambda>row. parseNumericValue (cell row index)) rs"

definition sumValues :: "jsnum list \<Rightarrow> jsnum" where
  "sumValues vs = foldl jsAdd (Fin 0) vs"

definition isMetricHeader :: "string \<Rightarrow> bool" where
  "isMetricHeader h =
     hasKeyword [''session'', ''user'', ''revenue'', ''conversion'', ''click'', ''impression'',
                 ''view'', ''cost'', ''ctr'', ''rate''] h"

text \<open>The \<open>metricColumns.forEach\<close> of \<open>parseAIResponse\<close>: the sum of the non-zero
  values of each metric column that has any.\<close>

definition computedMetrics :: "string list \<Rightarrow> string list list \<Rightarrow> (string \<rightharpoonup> jsnum)" where
  "computedMetrics hs rs =
     foldl (\<lambda>km col.
              case indexOf hs col of
                None \<Rightarrow> km
              | Some colIndex \<Rightarrow>
                  (let vs = filter (\<lambda>v. \<not> isNaN v \<and> v \<noteq> Fin 0) (columnValues rs colIndex)
                   in if length vs > 0 then setKey km col (sumValues vs) else km))
       Map.empty (filter isMetricHeader hs)"

text \<open>\<open>Object.entries(parsed.keyMetrics || {})\<close>: the properties of an object, the
  indexed elements of an array, the characters of a string; nothing for the other
  values.\<close>

definition entriesOf :: "json option \<Rightarrow> (string \<times> json) list" where
  "entriesOf v =
     (case v of
        Some (JObject kvs) \<Rightarrow> objectEntries kvs
      | Some (JArray xs) \<Rightarrow> zip (map natToString [0..<length xs]) xs
      | Some (JString s) \<Rightarrow> zip (map natToString [0..<length s]) (map (\<lambda>c. JString [c]) s)
      | _ \<Rightarrow> [])"

definition mergeAiMetrics :: "(string \<rightharpoonup> jsnum) \<Rightarrow> (string \<times> json) list \<Rightarrow> (string \<rightharpoonup> jsnum)" where
  "mergeAiMetrics km entries =
     foldl (\<lambda>finalMetrics kv.
              case snd kv of
                JNumber n \<Rightarrow> if \<not> isNaN n then setKey finalMetrics (fst kv) n else finalMetrics
              | _ \<Rightarrow> finalMetrics) km entries"

datatype ai_error = EmptyResponse | NoJsonFound | InvalidJson | NotAnObject

text \<open>\<open>aiResponse.match(/\\{[\\s\\S]*\\}/)\<close>: the text from the first opening brace to
  the last closing brace after it.\<close>

definition extractJson :: "string \<Rightarrow> string option" where
  "extractJson s =
     (let fromBrace = dropWhile (\<lambda>c. c \<noteq> CHR 0x7B) s;
          upToBrace = rev (dropWhile (\<lambda>c. c \<noteq> CHR 0x7D) (rev fromBrace))
      in if fromBrace = [] \<or> upToBrace = [] then None else Some upToBrace)"

text \<open>
  \<open>parseAIResponse\<close> in two parts: up to the check of the parsed value, where it can
  throw, and the construction of the result from the parsed value.
\<close>

definition decodeResponse :: "(string \<Rightarrow> json option) \<Rightarrow> string \<Rightarrow> ai_error + json" where
  "decodeResponse jsonParse aiResponse =
     (if aiResponse = [] \<or> length (trim aiResponse) = 0 then Inl EmptyResponse
      else
        (case extractJson aiResponse of
           None \<Rightarrow> Inl NoJsonFound
         | Some jsonMatch \<Rightarrow>
             (case jsonParse jsonMatch of
                None \<Rightarrow> Inl InvalidJson
              | Some parsed \<Rightarrow> if \<not> isObjectLike parsed then Inl NotAnObject else Inr parsed)))"

definition resultFromParsed :: "json \<Rightarrow> string list \<Rightarrow> string list list \<Rightarrow> AnalysisResult" where
  "resultFromParsed parsed hs rs =
     \<lparr> insights =
         (case getProp parsed ''insights'' of
            Some (JArray xs) \<Rightarrow> mapFilterBoolean validateInsight xs
          | _ \<Rightarrow> []),
       recommendations =
         (case getProp parsed ''recommendations'' of
            Some (JArray xs) \<Rightarrow> mapFilterBoolean validateRecommendation xs
          | _ \<Rightarrow> []),
       summary = stringOr (getProp parsed ''summary'') ''Analysis completed successfully.'',
       keyMetrics = mergeAiMetrics (computedMetrics hs rs) (entriesOf (getProp parsed ''keyMetrics'')) \<rparr>"

definition parseAIResponse ::
  "(string \<Rightarrow> json option) \<Rightarrow> string \<Rightarrow> string list \<Rightarrow> string list list \<Rightarrow> ai_error + AnalysisResult" where
  "parseAIResponse jsonParse aiResponse hs rs =
     (case decodeResponse jsonParse aiResponse of
        Inl e \<Rightarrow> Inl e
      | Inr parsed \<Rightarrow> Inr (resultFromParsed parsed hs rs))"

text \<open>\<open>xs.join(', ')\<close>.\<close>

fun joinComma :: "string list \<Rightarrow> string" where
  "joinComma [] = []"
| "joinComma [x] = x"
| "joinComma (x # y # ys) = x @ '', '' @ joinComma (y # ys)"

text \<open>
  \<open>createFallbackAnalysis\<close>.  The loop over the headers adds the sum of a column when
  its non-zero values are more than half of the rows (\<open>values.length > rows.length * 0.5\<close>,
  exactly \<open>2 * values.length > rows.length\<close>).
\<close>

definition fallbackMetrics :: "string list \<Rightarrow> string list list \<Rightarrow> (string \<rightharpoonup> jsnum)" where
  "fallbackMetrics hs rs =
     foldl (\<lambda>km (header, index).
              let vs = filter (\<lambda>v. v \<noteq> Fin 0) (columnValues rs index)
              in if length vs > 0 \<and> 2 * length vs > length rs
                 then setKey km header (sumValues vs) else km)
       [''total_rows'' \<mapsto> Fin (of_nat (length rs)), ''total_columns'' \<mapsto> Fin (of_nat (length hs))]
       (zip hs [0..<length hs])"

definition createFallbackAnalysis :: "string list \<Rightarrow> string list list \<Rightarrow> string \<Rightarrow> AnalysisResult" where
  "createFallbackAnalysis hs rs reportType =
     \<lparr> insights =
         [\<lparr> category = ''Data Overview'',
            title = ''Data Successfully Processed'',
            description =
              ''Your '' @ reportType @ '' report contains '' @ natToString (length rs) @
              '' rows of data with '' @ natToString (length hs) @
              '' columns. The data includes metrics such as: '' @ joinComma (take 5 hs) @
              (if length hs > 5 then '', and more'' else []) @ ''.'',
            impact = Medium,
            metrics = Some (JObject [(''total_rows'', JNumber (Fin (of_nat (length rs)))),
                                     (''total_columns'', JNumber (Fin (of_nat (length hs))))]) \<rparr>],
       recommendations =
         [\<lparr> recTitle = ''Review Data Quality'',
            recDescription =
              ''Ensure all important metrics are being tracked consistently across your reporting periods. Look for any missing data points or anomalies.'',
            priority = Medium,
            effort = Low,
            expectedImpact = ''Improved data reliability and more accurate insights'' \<rparr>,
          \<lparr> recTitle = ''Set Up Regular Analysis'',
            recDescription =
              ''Consider setting up automated reporting to track these metrics on a regular basis for better trend analysis.'',
            priority = Low,
            effort = Medium,
            expectedImpact = ''Better understanding of performance trends over time'' \<rparr>],
       summary =
         ''Analysis completed for your '' @ reportType @ '' report. The dataset contains '' @
         natToString (length rs) @ '' rows and '' @ natToString (length hs) @
         '' columns of data. While AI analysis was not available, the data has been successfully processed and basic metrics have been calculated.'',
       keyMetrics = fallbackMetrics hs rs \<rparr>"

text \<open>The response-validation step of \<open>analyze\<close>: the \<open>try\<close> around
  \<open>parseAIResponse\<close> whose \<open>catch\<close> builds the fallback analysis.\<close>

definition validateResponse ::
  "(string \<Rightarrow> json option) \<Rightarrow> string \<Rightarrow> string list \<Rightarrow> string list list \<Rightarrow> string \<Rightarrow> AnalysisResult" where
  "validateResponse jsonParse aiResponse hs rs reportType =
     (case parseAIResponse jsonParse aiResponse hs rs of
        Inl e \<Rightarrow> createFallbackAnalysis hs rs reportType
      | Inr result \<Rightarrow> result)"

section \<open>Properties of the CSV parser\<close>

lemma parseRows_lengths:
  "parseRows n i ls = Inr rs \<Longrightarrow> \<forall>r \<in> set rs. length r = n"
proof (induction ls arbitrary: i rs)
  case Nil
  then show ?case by simp
next
  case (Cons l ls)
  from Cons.prems have len: "length (parseCSVLine l) = n"
    by (auto simp: Let_def split: if_splits)
  from Cons.prems len obtain rs' where
    rest: "parseRows n (i + 1) ls = Inr rs'" and rs: "rs = parseCSVLine l # rs'"
    by (auto simp: Let_def split: sum.splits)
  from Cons.IH [OF rest] len rs show ?case by simp
qed

lemma parseRows_mismatch:
  "l \<in> set ls \<Longrightarrow> length (parseCSVLine l) \<noteq> n \<Longrightarrow> \<exists>e. parseRows n i ls = Inl e"
proof (induction ls arbitrary: i)
  case Nil
  then show ?case by simp
next
  case (Cons a ls)
  show ?case
  proof (cases "length (parseCSVLine a) = n")
    case False
    then show ?thesis by (simp add: Let_def)
  next
    case True
    with Cons.prems have "l \<in> set ls" by auto
    from Cons.IH [OF this Cons.prems(2)] obtain e where "parseRows n (i + 1) ls = Inl e"
      by blast
    with True show ?thesis by (simp add: Let_def)
  qed
qed

lemma parseCSVContent_Inr:
  assumes "parseCSVContent c = Inr t"
  shows "\<exists>headerLine dataLines.
           nonBlankLines c = headerLine # dataLines \<and>
           headers t = parseCSVLine headerLine \<and>
           parseRows (length (headers t)) 1 dataLines = Inr (rows t)"
  using assms
  by (auto simp: parseCSVContent_def Let_def split: if_splits list.splits sum.splits)

text \<open>
  C3.  Whenever CSV parsing succeeds, every row of the resulting table has as many fields
  as there are headers; and a data line (a non-blank line after the header line) whose
  parsed field count differs from the header's makes the parse fail, so nothing is padded
  or truncated.
\<close>

theorem parseCSVContent_row_invariant:
  "(\<forall>t. parseCSVContent c = Inr t \<longrightarrow> (\<forall>r \<in> set (rows t). length r = length (headers t))) \<and>
   (\<forall>headerLine dataLines l.
      nonBlankLines c = headerLine # dataLines \<and> l \<in> set dataLines \<and>
      length (parseCSVLine l) \<noteq> length (parseCSVLine headerLine)
      \<longrightarrow> (\<exists>e. parseCSVContent c = Inl e))"
proof (intro conjI allI impI)
  fix t
  assume ok: "parseCSVContent c = Inr t"
  from parseCSVContent_Inr [OF ok] obtain headerLine dataLines where
    "parseRows (length (headers t)) 1 dataLines = Inr (rows t)"
    by blast
  then show "\<forall>r \<in> set (rows t). length r = length (headers t)"
    by (rule parseRows_lengths)
next
  fix headerLine dataLines l
  assume a: "nonBlankLines c = headerLine # dataLines \<and> l \<in> set dataLines \<and>
             length (parseCSVLine l) \<noteq> length (parseCSVLine headerLine)"
  then obtain e where "parseRows (length (parseCSVLine headerLine)) 1 dataLines = Inl e"
    using parseRows_mismatch by blast
  with a show "\<exists>e. parseCSVContent c = Inl e"
    by (auto simp: parseCSVContent_def Let_def)
qed

theorem parseCSVContent_row_invariant_witness:
  "(\<exists>t. parseCSVContent ''a,b\<newline>1,2\<newline>3,4'' = Inr t \<and>
        (\<forall>r \<in> set (rows t). length r = length (headers t))) \<and>
   (\<exists>e. parseCSVContent ''a,b\<newline>1\<newline>3,4'' = Inl e)"
proof
  have ok: "parseCSVContent ''a,b\<newline>1,2\<newline>3,4'' =
              Inr \<lparr> headers = [''a'', ''b''], rows = [[''1'', ''2''], [''3'', ''4'']] \<rparr>"
    by code_simp
  with parseCSVContent_row_invariant [of "''a,b\<newline>1,2\<newline>3,4''"]
  show "\<exists>t. parseCSVContent ''a,b\<newline>1,2\<newline>3,4'' = Inr t \<and>
          (\<forall>r \<in> set (rows t). length r = length (headers t))"
    by blast
next
  have ls: "nonBlankLines ''a,b\<newline>1\<newline>3,4'' = [''a,b'', ''1'', ''3,4'']"
    by code_simp
  have ne: "length (parseCSVLine ''1'') \<noteq> length (parseCSVLine ''a,b'')"
    by code_simp
  from parseCSVContent_row_invariant [of "''a,b\<newline>1\<newline>3,4''", THEN conjunct2,
      rule_format, of "''a,b''" "[''1'', ''3,4'']" "''1''"] ls ne
  show "\<exists>e. parseCSVContent ''a,b\<newline>1\<newline>3,4'' = Inl e"
    by simp
qed

lemma parseRows_length:
  "parseRows n i ls = Inr rs \<Longrightarrow> length rs = length ls"
proof (induction ls arbitrary: i rs)
  case Nil
  then show ?case by simp
next
  case (Cons l ls)
  from Cons.prems obtain rs' where
    rest: "parseRows n (i + 1) ls = Inr rs'" and rs: "rs = parseCSVLine l # rs'"
    by (auto simp: Let_def split: if_splits sum.splits)
  from Cons.IH [OF rest] rs show ?case by simp
qed

lemma parseCSVLineLoop_nonempty: "parseCSVLineLoop result current q s \<noteq> []"
  by (induction result current q s rule: parseCSVLineLoop.induct) simp_all

lemma parseAndValidate_Inr:
  assumes "parseAndValidate c = Inr t"
  shows "parseCSVContent c = Inr t \<and> 2 \<le> length (rows t)"
  using assms by (auto simp: parseAndValidate_def split: sum.splits if_splits)


section \<open>Upload validation against the analyze endpoint's re-validation\<close>

text \<open>
  C9 (as stated).  The claim says that both routines accept exactly the inputs with a
  non-empty header row of at least 2 columns and at least 2 data rows, and so agree on
  every input.  The text below has a header row with 2 columns and 2 data rows; the analyze
  endpoint accepts it, while the upload validation rejects it for being shorter than 50
  characters.
\<close>

theorem validation_agreement_counterexample:
  "validateCSVContent False ''a,b\<newline>1,2\<newline>3,4'' = Inl ContentTooSmall \<and>
   parseAndValidate ''a,b\<newline>1,2\<newline>3,4'' =
     Inr \<lparr> headers = [''a'', ''b''], rows = [[''1'', ''2''], [''3'', ''4'']] \<rparr>"
  by code_simp

lemma trim_empty_iff: "trim s = [] \<longleftrightarrow> (\<forall>c \<in> set s. isWhiteSpace c)"
proof -
  have a: "dropWhile isWhiteSpace (rev (dropWhile isWhiteSpace s)) = [] \<longleftrightarrow>
        dropWhile isWhiteSpace s = []"
  proof (cases "dropWhile isWhiteSpace s")
    case Nil
    show ?thesis unfolding Nil by simp
  next
    case (Cons a as)
    then have "\<not> isWhiteSpace a" by (metis hd_dropWhile list.sel(1) list.distinct(1))
    with Cons show ?thesis by (auto simp: dropWhile_eq_Nil_conv)
  qed
  have "trim s = [] \<longleftrightarrow> dropWhile isWhiteSpace (rev (dropWhile isWhiteSpace s)) = []"
    by (simp add: trim_def)
  also have "\<dots> \<longleftrightarrow> dropWhile isWhiteSpace s = []"
    by (rule a)
  also have "\<dots> \<longleftrightarrow> (\<forall>c \<in> set s. isWhiteSpace c)"
    by (simp add: dropWhile_eq_Nil_conv)
  finally show ?thesis .
qed

lemma splitLines_nonempty: "splitLines c \<noteq> []"
  by (induction c rule: splitLines.induct) (auto split: list.splits)

lemma splitLines_chars: "l \<in> set (splitLines c) \<Longrightarrow> set l \<subseteq> set c"
proof (induction c arbitrary: l rule: splitLines.induct)
  case 1
  then show ?case by simp
next
  case (2 c)
  then show ?case by (auto split: if_splits)
next
  case (3 c d cs)
  show ?case
  proof (cases "c = CHR 0x0A")
    case True
    with 3 show ?thesis by (auto split: if_splits)
  next
    case nl: False
    show ?thesis
    proof (cases "c = CHR 0x0D \<and> d = CHR 0x0A")
      case True
      with 3 nl show ?thesis by (auto split: if_splits)
    next
      case False
      obtain a rest where sl: "splitLines (d # cs) = a # rest"
        using splitLines_nonempty [of "d # cs"] by (cases "splitLines (d # cs)") auto
      from "3.prems" nl False sl have l: "l = c # a \<or> l \<in> set rest" by auto
      from "3.IH"(3) [OF nl False] sl
      have ih: "set a \<subseteq> set (d # cs)" "\<And>l'. l' \<in> set rest \<Longrightarrow> set l' \<subseteq> set (d # cs)"
        by simp_all
      from l ih show ?thesis by auto
    qed
  qed
qed

lemma nonBlankLines_nonblank:
  assumes "l \<in> set (nonBlankLines c)"
  shows "l \<noteq> [] \<and> trim l \<noteq> [] \<and> c \<noteq> [] \<and> trim c \<noteq> []"
proof -
  from assms have l: "l \<in> set (splitLines c)" and t: "trim l \<noteq> []"
    by (auto simp: nonBlankLines_def)
  from t obtain ch where "ch \<in> set l" "\<not> isWhiteSpace ch"
    by (auto simp: trim_empty_iff)
  with splitLines_chars [OF l] have "ch \<in> set c" "\<not> isWhiteSpace ch" by auto
  then have "trim c \<noteq> []" "c \<noteq> []" by (auto simp: trim_empty_iff)
  with t show ?thesis by (auto simp: trim_def)
qed

lemma parseRows_all:
  "(\<forall>l \<in> set ls. length (parseCSVLine l) = n) \<Longrightarrow> parseRows n i ls = Inr (map parseCSVLine ls)"
  by (induction ls arbitrary: i) (simp_all add: Let_def)

lemma parseRows_Inr_iff:
  "parseRows n i ls = Inr rs \<longleftrightarrow>
     (\<forall>l \<in> set ls. length (parseCSVLine l) = n) \<and> rs = map parseCSVLine ls"
proof
  assume ok: "parseRows n i ls = Inr rs"
  have "\<forall>l \<in> set ls. length (parseCSVLine l) = n"
  proof (rule ccontr)
    assume "\<not> (\<forall>l \<in> set ls. length (parseCSVLine l) = n)"
    then obtain l where "l \<in> set ls" "length (parseCSVLine l) \<noteq> n" by blast
    from parseRows_mismatch [OF this, of i] ok show False by auto
  qed
  with parseRows_all [of ls n i] ok show "(\<forall>l \<in> set ls. length (parseCSVLine l) = n) \<and> rs = map parseCSVLine ls"
    by simp
next
  assume "(\<forall>l \<in> set ls. length (parseCSVLine l) = n) \<and> rs = map parseCSVLine ls"
  with parseRows_all [of ls n i] show "parseRows n i ls = Inr rs" by simp
qed

lemma checkDataLines_iff:
  "checkDataLines n i ls = Inr () \<longleftrightarrow> (\<forall>l \<in> set ls. length (splitOn (CHR '','') l) = n)"
  by (induction ls arbitrary: i) (auto simp: Let_def)

lemma first_data_lines:
  "2 \<le> length ls \<Longrightarrow> take (min 6 (length ls) - Suc 0) (drop (Suc 0) ls) = take 5 (tl ls)"
  by (cases ls) (auto simp: min_def)

text \<open>
  C9 (amended).  Both routines require a header line followed by at least 2 non-blank
  data lines, but they do not enforce the format identically.  The upload validation
  accepts a text exactly when it has no replacement character, at least 3 non-blank lines,
  a header line with at least 2 comma-separated cells, none of them blank, as many
  comma-separated pieces in each of the first 5 data lines as in the header line, and at
  least 50 characters.  The analyze endpoint's re-validation accepts a text exactly when
  it has at least 3 non-blank lines, the fields of the header line (read with quotes) are
  distinct up to case, and every data line has as many fields (read with quotes) as the
  header line; the table is then those fields.  So the analyze endpoint accepts tables
  with a single column and texts shorter than 50 characters, which the upload validation
  rejects.
\<close>

theorem validation_characterisation:
  "(validateCSVContent hasReplacementChar c = Inr () \<longleftrightarrow>
      \<not> hasReplacementChar \<and>
      3 \<le> length (nonBlankLines c) \<and>
      2 \<le> length (splitOn (CHR '','') (hd (nonBlankLines c))) \<and>
      (\<forall>h \<in> set (splitOn (CHR '','') (hd (nonBlankLines c))). trim h \<noteq> []) \<and>
      (\<forall>l \<in> set (take 5 (tl (nonBlankLines c))).
         length (splitOn (CHR '','') l) = length (splitOn (CHR '','') (hd (nonBlankLines c)))) \<and>
      50 \<le> length c) \<and>
   (parseAndValidate c = Inr t \<longleftrightarrow>
      3 \<le> length (nonBlankLines c) \<and>
      findDuplicates [] (parseCSVLine (hd (nonBlankLines c))) = [] \<and>
      (\<forall>l \<in> set (tl (nonBlankLines c)).
         length (parseCSVLine l) = length (parseCSVLine (hd (nonBlankLines c)))) \<and>
      t = \<lparr> headers = parseCSVLine (hd (nonBlankLines c)),
            rows = map parseCSVLine (tl (nonBlankLines c)) \<rparr>)"
proof
  show "validateCSVContent hasReplacementChar c = Inr () \<longleftrightarrow>
      \<not> hasReplacementChar \<and>
      3 \<le> length (nonBlankLines c) \<and>
      2 \<le> length (splitOn (CHR '','') (hd (nonBlankLines c))) \<and>
      (\<forall>h \<in> set (splitOn (CHR '','') (hd (nonBlankLines c))). trim h \<noteq> []) \<and>
      (\<forall>l \<in> set (take 5 (tl (nonBlankLines c))).
         length (splitOn (CHR '','') l) = length (splitOn (CHR '','') (hd (nonBlankLines c)))) \<and>
      50 \<le> length c"
  proof (cases "2 \<le> length (nonBlankLines c)")
    case False
    then show ?thesis by (auto simp: validateCSVContent_def Let_def)
  next
    case True
    then have "length (nonBlankLines c) \<noteq> 0" by linarith
    then have "nonBlankLines c \<noteq> []" by (simp only: length_0_conv not_False_eq_True)
    then have "hd (nonBlankLines c) \<in> set (nonBlankLines c)" by simp
    from nonBlankLines_nonblank [OF this]
    have hl: "hd (nonBlankLines c) \<noteq> []" "trim (hd (nonBlankLines c)) \<noteq> []" by simp_all
    from True have n: "length (nonBlankLines c) \<noteq> 0" "length (nonBlankLines c) \<noteq> 1"
      by linarith+
    let ?n = "length (splitOn (CHR '','') (hd (nonBlankLines c)))"
    show ?thesis
    proof (cases "checkDataLines ?n 0 (take 5 (tl (nonBlankLines c)))")
      case (Inl e)
      then have "checkDataLines ?n 0 (take 5 (tl (nonBlankLines c))) \<noteq> Inr ()" by simp
      then have bad: "\<not> (\<forall>l \<in> set (take 5 (tl (nonBlankLines c))).
          length (splitOn (CHR '','') l) = ?n)"
        by (simp only: checkDataLines_iff not_False_eq_True)
      have "validateCSVContent hasReplacementChar c \<noteq> Inr ()"
        using hl n Inl
        by (simp add: validateCSVContent_def Let_def first_data_lines [OF True])
      with bad show ?thesis by blast
    next
      case (Inr u)
      then have "checkDataLines ?n 0 (take 5 (tl (nonBlankLines c))) = Inr ()" by simp
      then have good: "\<forall>l \<in> set (take 5 (tl (nonBlankLines c))).
          length (splitOn (CHR '','') l) = ?n"
        by (simp only: checkDataLines_iff)
      have "validateCSVContent hasReplacementChar c = Inr () \<longleftrightarrow>
          \<not> hasReplacementChar \<and> 3 \<le> length (nonBlankLines c) \<and> 2 \<le> ?n \<and>
          (\<forall>h \<in> set (splitOn (CHR '','') (hd (nonBlankLines c))). trim h \<noteq> []) \<and>
          50 \<le> length c"
        using hl n Inr
        by (auto simp: validateCSVContent_def Let_def first_data_lines [OF True]
              filter_empty_conv)
      with good show ?thesis by blast
    qed
  qed
next
  show "parseAndValidate c = Inr t \<longleftrightarrow>
      3 \<le> length (nonBlankLines c) \<and>
      findDuplicates [] (parseCSVLine (hd (nonBlankLines c))) = [] \<and>
      (\<forall>l \<in> set (tl (nonBlankLines c)).
         length (parseCSVLine l) = length (parseCSVLine (hd (nonBlankLines c)))) \<and>
      t = \<lparr> headers = parseCSVLine (hd (nonBlankLines c)),
            rows = map parseCSVLine (tl (nonBlankLines c)) \<rparr>"
  proof (cases "nonBlankLines c")
    case Nil
    then show ?thesis
      by (auto simp: parseAndValidate_def parseCSVContent_def split: sum.splits if_splits)
  next
    case (Cons headerLine dataLines)
    then have "headerLine \<in> set (nonBlankLines c)" by simp
    from nonBlankLines_nonblank [OF this]
    have nb: "headerLine \<noteq> []" "c \<noteq> []" "trim c \<noteq> []" by simp_all
    have hs: "parseCSVLine headerLine \<noteq> []"
      by (simp add: parseCSVLine_def parseCSVLineLoop_nonempty)
    show ?thesis
    proof (cases "findDuplicates [] (parseCSVLine headerLine) = []")
      case False
      with Cons nb hs show ?thesis
        by (auto simp: parseAndValidate_def parseCSVContent_def Let_def)
    next
      case nodup: True
      show ?thesis
      proof (cases "\<forall>l \<in> set dataLines. length (parseCSVLine l) = length (parseCSVLine headerLine)")
        case False
        then have "\<And>rs. parseRows (length (parseCSVLine headerLine)) 1 dataLines \<noteq> Inr rs"
          by (simp add: parseRows_Inr_iff)
        with False Cons nb hs nodup show ?thesis
          by (auto simp: parseAndValidate_def parseCSVContent_def Let_def split: sum.splits)
      next
        case True
        then have "parseRows (length (parseCSVLine headerLine)) 1 dataLines =
            Inr (map parseCSVLine dataLines)"
          by (rule parseRows_all)
        with True Cons nb hs nodup show ?thesis
          by (auto simp: parseAndValidate_def parseCSVContent_def Let_def)
      qed
    qed
  qed
qed

theorem validation_characterisation_witness:
  "validateCSVContent False
     ''campaign,clicks\<newline>summer_sale_2024,120\<newline>winter_sale_2024,340'' = Inr () \<and>
   parseAndValidate ''a\<newline>1\<newline>2'' = Inr \<lparr> headers = [''a''], rows = [[''1''], [''2'']] \<rparr> \<and>
   validateCSVContent False ''a\<newline>1\<newline>2'' \<noteq> Inr ()"
proof -
  let ?long = "''campaign,clicks\<newline>summer_sale_2024,120\<newline>winter_sale_2024,340''"
  let ?one = "''a\<newline>1\<newline>2''"
  have u1: "3 \<le> length (nonBlankLines ?long)" by code_simp
  have u2: "2 \<le> length (splitOn (CHR '','') (hd (nonBlankLines ?long)))" by code_simp
  have u3: "\<forall>h \<in> set (splitOn (CHR '','') (hd (nonBlankLines ?long))). trim h \<noteq> []"
    by code_simp
  have u4: "\<forall>l \<in> set (take 5 (tl (nonBlankLines ?long))).
      length (splitOn (CHR '','') l) = length (splitOn (CHR '','') (hd (nonBlankLines ?long)))"
    by code_simp
  have u5: "50 \<le> length ?long" by simp
  from validation_characterisation [where hasReplacementChar = False and c = ?long,
      THEN conjunct1] u1 u2 u3 u4 u5
  have up: "validateCSVContent False ?long = Inr ()" by (simp only: simp_thms)
  have a1: "3 \<le> length (nonBlankLines ?one)" by code_simp
  have a2: "findDuplicates [] (parseCSVLine (hd (nonBlankLines ?one))) = []" by code_simp
  have a3: "\<forall>l \<in> set (tl (nonBlankLines ?one)).
      length (parseCSVLine l) = length (parseCSVLine (hd (nonBlankLines ?one)))"
    by code_simp
  have a4: "\<lparr> headers = [''a''], rows = [[''1''], [''2'']] \<rparr> =
      \<lparr> headers = parseCSVLine (hd (nonBlankLines ?one)),
        rows = map parseCSVLine (tl (nonBlankLines ?one)) \<rparr>"
    by code_simp
  from validation_characterisation [where c = ?one
      and t = "\<lparr> headers = [''a''], rows = [[''1''], [''2'']] \<rparr>", THEN conjunct2] a1 a2 a3 a4
  have an: "parseAndValidate ?one = Inr \<lparr> headers = [''a''], rows = [[''1''], [''2'']] \<rparr>"
    by (simp only: simp_thms)
  have r: "\<not> 2 \<le> length (splitOn (CHR '','') (hd (nonBlankLines ?one)))" by code_simp
  from validation_characterisation [where hasReplacementChar = False and c = ?one,
      THEN conjunct1] r
  have rej: "validateCSVContent False ?one \<noteq> Inr ()" by (simp only: simp_thms)
  from up an rej show ?thesis by (simp only: simp_thms)
qed


section \<open>Properties of the filter engine\<close>

lemma dateStage_rows:
  "filteredRows (dateStage pd hs f d) = filter (dateCond pd hs f) (filteredRows d)"
proof -
  have "dateCond pd hs f = (\<lambda>row. True)" if "\<not> (truthyStr (rangeStart f) \<or> truthyStr (rangeEnd f))"
    using that by (auto simp: dateCond_def)
  moreover have "dateCond pd hs f = (\<lambda>row. True)"
    if "truthyStr (rangeStart f) \<or> truthyStr (rangeEnd f)" "findDateColumns hs = []"
    using that by (auto simp: dateCond_def)
  ultimately show ?thesis
    by (cases "findDateColumns hs")
       (auto simp: dateStage_def Let_def dateCond_def intro!: filter_cong)
qed

lemma metricStage_rows: "filteredRows (metricStage f d) = filteredRows d"
  by (simp add: metricStage_def split: option.splits)

lemma categoryStage_rows:
  "filteredRows (categoryStage hs rs f d) =
     filter (categoryCond hs (findCategoricalColumns hs rs) f) (filteredRows d)"
  by (cases "selectedCategories f"; cases "findCategoricalColumns hs rs")
     (auto simp: categoryStage_def categoryCond_def Let_def intro!: filter_cong)

lemma valueStage_rows:
  "filteredRows (valueStage hs rs f d) =
     filter (valueCond hs (findNumericColumns hs rs) f) (filteredRows d)"
  by (cases "findNumericColumns hs rs")
     (auto simp: valueStage_def valueCond_def Let_def intro!: filter_cong)

lemma applyFilters_rows:
  "filteredRows (applyFilters pd hs rs (Some f)) =
     filter (\<lambda>row. dateCond pd hs f row \<and>
                    categoryCond hs (findCategoricalColumns hs rs) f row \<and>
                    valueCond hs (findNumericColumns hs rs) f row) rs"
  by (simp add: applyFilters_def valueStage_rows categoryStage_rows metricStage_rows
        dateStage_rows conj_commute conj_left_commute)

lemma applyFilters_subset: "set (filteredRows (applyFilters pd hs rs filters)) \<subseteq> set rs"
proof (cases filters)
  case None
  then show ?thesis by (simp add: applyFilters_def)
next
  case (Some f)
  then show ?thesis by (simp add: applyFilters_rows)
qed

lemma dateRowKept_weaken:
  assumes "dateRowKept pd i s' e' row"
    and "s \<noteq> None \<Longrightarrow> s' = s" and "e \<noteq> None \<Longrightarrow> e' = e"
  shows "dateRowKept pd i s e row"
  using assms by (auto simp: dateRowKept_def Let_def split: if_splits)

lemma dateCond_carries:
  assumes "carriesConstraints a c" and "dateCond pd hs c row"
  shows "dateCond pd hs a row"
proof (cases "truthyStr (rangeStart a) \<or> truthyStr (rangeEnd a)")
  case False
  then show ?thesis by (simp add: dateCond_def)
next
  case True
  show ?thesis
  proof (cases "findDateColumns hs")
    case Nil
    then show ?thesis by (simp add: dateCond_def)
  next
    case (Cons dateCol rest)
    from assms(1) have s: "truthyStr (rangeStart a) \<Longrightarrow> rangeStart c = rangeStart a"
      and e: "truthyStr (rangeEnd a) \<Longrightarrow> rangeEnd c = rangeEnd a"
      by (simp_all add: carriesConstraints_def)
    from True s e have c: "truthyStr (rangeStart c) \<or> truthyStr (rangeEnd c)" by auto
    from assms(2) c Cons have
      "dateRowKept pd (the (indexOf hs dateCol))
         (if truthyStr (rangeStart c) then Some (pd (the (rangeStart c))) else None)
         (if truthyStr (rangeEnd c) then Some (pd (the (rangeEnd c))) else None) row"
      by (simp add: dateCond_def)
    then have
      "dateRowKept pd (the (indexOf hs dateCol))
         (if truthyStr (rangeStart a) then Some (pd (the (rangeStart a))) else None)
         (if truthyStr (rangeEnd a) then Some (pd (the (rangeEnd a))) else None) row"
      by (rule dateRowKept_weaken) (use s e in \<open>auto split: if_splits\<close>)
    with True Cons show ?thesis by (simp add: dateCond_def)
  qed
qed

lemma categoryCond_carries:
  assumes "carriesConstraints a c" and "categoryCond hs cols c row"
  shows "categoryCond hs cols a row"
  using assms
  by (auto simp: carriesConstraints_def categoryCond_def split: option.splits list.splits if_splits)

lemma valueRowKept_weaken:
  assumes "valueRowKept i lo' hi' row"
    and "lo \<noteq> None \<Longrightarrow> lo' = lo" and "hi \<noteq> None \<Longrightarrow> hi' = hi"
  shows "valueRowKept i lo hi row"
  using assms by (auto simp: valueRowKept_def Let_def split: if_splits)

lemma valueCond_carries:
  assumes "carriesConstraints a c" and "valueCond hs cols c row"
  shows "valueCond hs cols a row"
proof (cases "minValue a \<noteq> None \<or> maxValue a \<noteq> None")
  case False
  then show ?thesis by (simp add: valueCond_def)
next
  case True
  from assms(1) have lo: "minValue a \<noteq> None \<Longrightarrow> minValue c = minValue a"
    and hi: "maxValue a \<noteq> None \<Longrightarrow> maxValue c = maxValue a"
    by (simp_all add: carriesConstraints_def)
  from True lo hi have c: "minValue c \<noteq> None \<or> maxValue c \<noteq> None" by auto
  show ?thesis
  proof (cases cols)
    case Nil
    then show ?thesis by (simp add: valueCond_def)
  next
    case (Cons numericCol rest)
    from assms(2) c Cons
    have "valueRowKept (the (indexOf hs numericCol)) (minValue c) (maxValue c) row"
      by (simp add: valueCond_def)
    then have "valueRowKept (the (indexOf hs numericCol)) (minValue a) (maxValue a) row"
      by (rule valueRowKept_weaken) (use lo hi in auto)
    with True Cons show ?thesis by (simp add: valueCond_def)
  qed
qed

text \<open>
  C4.  Conjoining a filter specification with another one only narrows the result: the
  rows kept by \<open>a\<close> followed by \<open>b\<close> (sequential AND) are among the rows kept by \<open>a\<close>
  alone; and the rows kept by a single specification \<open>c\<close> that carries every constraint
  of \<open>a\<close>, together with further ones, are among the rows kept by \<open>a\<close> alone.
\<close>

theorem filter_monotonicity:
  "set (applyBoth pd hs rs a b) \<subseteq> set (filteredRows (applyFilters pd hs rs a)) \<and>
   (carriesConstraints fa fc \<longrightarrow>
      set (filteredRows (applyFilters pd hs rs (Some fc)))
        \<subseteq> set (filteredRows (applyFilters pd hs rs (Some fa))))"
proof
  show "set (applyBoth pd hs rs a b) \<subseteq> set (filteredRows (applyFilters pd hs rs a))"
    unfolding applyBoth_def by (rule applyFilters_subset)
next
  show "carriesConstraints fa fc \<longrightarrow>
      set (filteredRows (applyFilters pd hs rs (Some fc)))
        \<subseteq> set (filteredRows (applyFilters pd hs rs (Some fa)))"
  proof
    assume cc: "carriesConstraints fa fc"
    show "set (filteredRows (applyFilters pd hs rs (Some fc)))
            \<subseteq> set (filteredRows (applyFilters pd hs rs (Some fa)))"
      using dateCond_carries [OF cc] categoryCond_carries [OF cc] valueCond_carries [OF cc]
      by (auto simp: applyFilters_rows)
  qed
qed


theorem filter_monotonicity_witness:
  "carriesConstraints
     \<lparr> dateRange = None, selectedMetrics = None, selectedCategories = Some [''email''],
       minValue = None, maxValue = None \<rparr>
     \<lparr> dateRange = None, selectedMetrics = None, selectedCategories = Some [''email''],
       minValue = Some (Fin 10), maxValue = None \<rparr> \<and>
   set (filteredRows (applyFilters parseISODate [''campaign'', ''clicks'']
          [[''email'', ''5''], [''search'', ''20''], [''email'', ''30'']]
          (Some \<lparr> dateRange = None, selectedMetrics = None, selectedCategories = Some [''email''],
                  minValue = Some (Fin 10), maxValue = None \<rparr>)))
     \<subseteq> set (filteredRows (applyFilters parseISODate [''campaign'', ''clicks'']
          [[''email'', ''5''], [''search'', ''20''], [''email'', ''30'']]
          (Some \<lparr> dateRange = None, selectedMetrics = None, selectedCategories = Some [''email''],
                  minValue = None, maxValue = None \<rparr>)))"
proof -
  have cc: "carriesConstraints
     \<lparr> dateRange = None, selectedMetrics = None, selectedCategories = Some [''email''],
       minValue = None, maxValue = None \<rparr>
     \<lparr> dateRange = None, selectedMetrics = None, selectedCategories = Some [''email''],
       minValue = Some (Fin 10), maxValue = None \<rparr>"
    by (simp add: carriesConstraints_def rangeStart_def rangeEnd_def truthyStr_def falsy_def)
  with filter_monotonicity [of parseISODate "[''campaign'', ''clicks'']"
      "[[''email'', ''5''], [''search'', ''20''], [''email'', ''30'']]" None None
      "\<lparr> dateRange = None, selectedMetrics = None, selectedCategories = Some [''email''],
         minValue = None, maxValue = None \<rparr>"
      "\<lparr> dateRange = None, selectedMetrics = None, selectedCategories = Some [''email''],
         minValue = Some (Fin 10), maxValue = None \<rparr>"]
  show ?thesis by blast
qed

text \<open>
  C5.  The claim says that the numeric-range filter keeps every row whose value in the
  first numeric column is missing or unparseable.  The filter tests \<open>isNaN\<close> on the
  result of \<open>parseNumericValue\<close>, which has already replaced \<open>NaN\<close> by 0, so such
  a row is compared with the bounds as the value 0.  With \<open>minValue = 10\<close> the rows
  whose \<open>clicks\<close> cell is \<open>abc\<close> and the empty string are dropped.
\<close>

theorem value_filter_drops_unparseable:
  "findNumericColumns [''name'', ''clicks''] [[''a'', ''abc''], [''b'', ''20''], [''c'', []]] =
     [''clicks''] \<and>
   parseFloat ''abc'' = NaN \<and>
   filteredRows (applyFilters parseISODate [''name'', ''clicks'']
     [[''a'', ''abc''], [''b'', ''20''], [''c'', []]]
     (Some \<lparr> dateRange = None, selectedMetrics = None, selectedCategories = None,
             minValue = Some (Fin 10), maxValue = None \<rparr>)) = [[''b'', ''20'']]"
  by code_simp

text \<open>
  C7 (as stated).  The claim says that filtering the filtered rows again with the same
  specification changes nothing.  The categorical column is looked up anew in the rows
  passed in: on the four rows below the first categorical column is \<open>a\<close> and the
  selection \<open>x, p\<close> keeps three rows; on these three rows column \<open>a\<close> has a single
  value and the first categorical column is \<open>b\<close>, so the second pass drops the row
  whose \<open>b\<close> is \<open>q\<close>.
\<close>

theorem refilter_counterexample:
  "filteredRows (applyFilters parseISODate [''a'', ''b'']
      [[''x'', ''p''], [''x'', ''p''], [''x'', ''q''], [''y'', ''p'']]
      (Some \<lparr> dateRange = None, selectedMetrics = None, selectedCategories = Some [''x'', ''p''],
              minValue = None, maxValue = None \<rparr>))
     = [[''x'', ''p''], [''x'', ''p''], [''x'', ''q'']] \<and>
   filteredRows (applyFilters parseISODate [''a'', ''b'']
      [[''x'', ''p''], [''x'', ''p''], [''x'', ''q'']]
      (Some \<lparr> dateRange = None, selectedMetrics = None, selectedCategories = Some [''x'', ''p''],
              minValue = None, maxValue = None \<rparr>))
     = [[''x'', ''p''], [''x'', ''p'']]"
  by code_simp

lemma categoryCond_take: "categoryCond hs (take 1 cols) f = categoryCond hs cols f"
  by (cases cols) (auto simp: categoryCond_def fun_eq_iff split: option.splits)

lemma valueCond_take: "valueCond hs (take 1 cols) f = valueCond hs cols f"
  by (cases cols) (auto simp: valueCond_def fun_eq_iff)

text \<open>
  C7 (amended).  For every header list, row list and filter specification, applying the
  filter engine a second time with the same specification to the rows it produced returns
  them unchanged, provided that the first categorical column and the first numeric column
  found in the filtered rows are those found in the original rows (as they are when the
  header names decide the classification).
\<close>

theorem refilter_fixed_point:
  assumes "take 1 (findCategoricalColumns hs (filteredRows (applyFilters pd hs rs filters))) =
           take 1 (findCategoricalColumns hs rs)"
    and "take 1 (findNumericColumns hs (filteredRows (applyFilters pd hs rs filters))) =
         take 1 (findNumericColumns hs rs)"
  shows "filteredRows (applyFilters pd hs (filteredRows (applyFilters pd hs rs filters)) filters) =
         filteredRows (applyFilters pd hs rs filters)"
proof (cases filters)
  case None
  then show ?thesis by (simp add: applyFilters_def)
next
  case (Some f)
  let ?rs' = "filteredRows (applyFilters pd hs rs (Some f))"
  from assms Some have
    c: "categoryCond hs (findCategoricalColumns hs ?rs') f =
        categoryCond hs (findCategoricalColumns hs rs) f"
    and v: "valueCond hs (findNumericColumns hs ?rs') f =
            valueCond hs (findNumericColumns hs rs) f"
    by (metis categoryCond_take, metis valueCond_take)
  have "filteredRows (applyFilters pd hs ?rs' (Some f)) =
      filter (\<lambda>row. dateCond pd hs f row \<and>
                    categoryCond hs (findCategoricalColumns hs rs) f row \<and>
                    valueCond hs (findNumericColumns hs rs) f row) ?rs'"
    by (simp only: applyFilters_rows [of pd hs ?rs' f] c v)
  also have "\<dots> = ?rs'"
    by (simp add: applyFilters_rows)
  finally show ?thesis using Some by simp
qed

theorem refilter_fixed_point_witness:
  "filteredRows (applyFilters parseISODate [''campaign'', ''clicks'']
     (filteredRows (applyFilters parseISODate [''campaign'', ''clicks'']
        [[''email'', ''5''], [''search'', ''20''], [''email'', ''30'']]
        (Some \<lparr> dateRange = None, selectedMetrics = None, selectedCategories = Some [''email''],
                minValue = Some (Fin 10), maxValue = None \<rparr>)))
     (Some \<lparr> dateRange = None, selectedMetrics = None, selectedCategories = Some [''email''],
             minValue = Some (Fin 10), maxValue = None \<rparr>)) =
   filteredRows (applyFilters parseISODate [''campaign'', ''clicks'']
        [[''email'', ''5''], [''search'', ''20''], [''email'', ''30'']]
        (Some \<lparr> dateRange = None, selectedMetrics = None, selectedCategories = Some [''email''],
                minValue = Some (Fin 10), maxValue = None \<rparr>))"
proof (rule refilter_fixed_point)
  show "take 1 (findCategoricalColumns [''campaign'', ''clicks'']
      (filteredRows (applyFilters parseISODate [''campaign'', ''clicks'']
        [[''email'', ''5''], [''search'', ''20''], [''email'', ''30'']]
        (Some \<lparr> dateRange = None, selectedMetrics = None, selectedCategories = Some [''email''],
                minValue = Some (Fin 10), maxValue = None \<rparr>)))) =
    take 1 (findCategoricalColumns [''campaign'', ''clicks'']
      [[''email'', ''5''], [''search'', ''20''], [''email'', ''30'']])"
    by code_simp
  show "take 1 (findNumericColumns [''campaign'', ''clicks'']
      (filteredRows (applyFilters parseISODate [''campaign'', ''clicks'']
        [[''email'', ''5''], [''search'', ''20''], [''email'', ''30'']]
        (Some \<lparr> dateRange = None, selectedMetrics = None, selectedCategories = Some [''email''],
                minValue = Some (Fin 10), maxValue = None \<rparr>)))) =
    take 1 (findNumericColumns [''campaign'', ''clicks'']
      [[''email'', ''5''], [''search'', ''20''], [''email'', ''30'']])"
    by code_simp
qed

section \<open>Properties of the calendar\<close>

lemma div_bounds:
  fixes a :: int
  assumes "0 < k"
  shows "k * (a div k) \<le> a" and "a < k * (a div k) + k"
proof -
  have "a = k * (a div k) + a mod k" by simp
  moreover have "0 \<le> a mod k" "a mod k < k" using assms by simp_all
  ultimately show "k * (a div k) \<le> a" and "a < k * (a div k) + k" by linarith+
qed

lemma leap_sum_upper:
  fixes a b c n d :: int
  assumes "4 * a \<le> n + 1" "n + 69 < 100 * b + 100" "400 * c \<le> n + 369"
    and "d = 365 * n + a - b + c"
  shows "400 * d \<le> 146097 * n + 589"
  using assms by linarith

lemma leap_sum_lower:
  fixes a b c n d :: int
  assumes "n + 1 < 4 * a + 4" "100 * b \<le> n + 69" "n + 369 < 400 * c + 400"
    and "d = 365 * n + a - b + c"
  shows "146097 * n - 506 \<le> 400 * d"
  using assms by linarith

lemma dayFromYear_shift:
  "dayFromYear (1970 + n) = 365 * n + (n + 1) div 4 - (n + 69) div 100 + (n + 369) div 400"
  by (simp add: dayFromYear_def algebra_simps)

lemma dayFromYear_upper: "400 * dayFromYear (1970 + n) \<le> 146097 * n + 589"
  using div_bounds [of 4 "n + 1"] div_bounds [of 100 "n + 69"] div_bounds [of 400 "n + 369"]
  by (intro leap_sum_upper [OF _ _ _ dayFromYear_shift]) simp_all

lemma dayFromYear_lower: "146097 * n - 506 \<le> 400 * dayFromYear (1970 + n)"
  using div_bounds [of 4 "n + 1"] div_bounds [of 100 "n + 69"] div_bounds [of 400 "n + 369"]
  by (intro leap_sum_lower [OF _ _ _ dayFromYear_shift]) simp_all

text \<open>\<open>yearFromDay\<close> is ECMAScript's \<open>YearFromTime\<close>: the year whose first day is not
  after \<open>z\<close> and whose successor starts after \<open>z\<close>.\<close>

lemma yearFromDay_bounds:
  "dayFromYear (yearFromDay z) \<le> z \<and> z < dayFromYear (yearFromDay z + 1)"
proof -
  define q where "q = (z * 400) div 146097"
  define p where "p = q - 1"
  define r where "r = q + 2"
  define s where "s = q + 1"
  have q1: "146097 * q \<le> z * 400" and q2: "z * 400 < 146097 * q + 146097"
    unfolding q_def using div_bounds [of 146097 "z * 400"] by simp_all
  have Y: "yearFromDay z =
      (if z < dayFromYear (1970 + q) then 1970 + p
       else if dayFromYear (1970 + s) \<le> z then 1970 + s else 1970 + q)"
    by (simp add: yearFromDay_def Let_def q_def p_def s_def algebra_simps)
  have "q = p + 1" by (simp add: p_def)
  with q1 have "146097 * p + 146097 \<le> z * 400" by simp
  with dayFromYear_upper [of p] have a: "dayFromYear (1970 + p) \<le> z" by linarith
  have "q = r - 2" by (simp add: r_def)
  with q2 have "z * 400 < 146097 * r - 146097" by simp
  with dayFromYear_lower [of r] have b: "z < dayFromYear (1970 + r)" by linarith
  have e: "1970 + p + 1 = 1970 + q" "1970 + s + 1 = 1970 + r" "1970 + q + 1 = 1970 + s"
    by (simp_all add: p_def r_def s_def)
  consider "z < dayFromYear (1970 + q)"
    | "\<not> z < dayFromYear (1970 + q)" "dayFromYear (1970 + s) \<le> z"
    | "\<not> z < dayFromYear (1970 + q)" "\<not> dayFromYear (1970 + s) \<le> z"
    by blast
  then show ?thesis
  proof cases
    case 1
    then have "yearFromDay z = 1970 + p" by (simp only: Y if_True)
    with a 1 e(1) show ?thesis by ((simp only:), simp?)
  next
    case 2
    then have "yearFromDay z = 1970 + s" by (simp only: Y if_True if_False)
    with b 2 e(2) show ?thesis by ((simp only:), simp?)
  next
    case 3
    then have "yearFromDay z = 1970 + q" by (simp only: Y if_False)
    with 3 e(3) show ?thesis by ((simp only:), simp?)
  qed
qed

lemma monthFromDay_range: "0 \<le> monthFromDay z \<and> monthFromDay z \<le> 11"
  by (simp add: monthFromDay_def Let_def)

text \<open>Setting the date of a day to its own date plus \<open>k\<close> moves it by \<open>k\<close> days.\<close>

lemma makeDay_roundtrip:
  "makeDay (yearFromDay z) (monthFromDay z) (dateFromDay z + k) = z + k"
proof -
  from monthFromDay_range [of z]
  have "monthFromDay z div 12 = 0" "monthFromDay z mod 12 = monthFromDay z"
    by simp_all
  then show ?thesis
    by (simp add: makeDay_def dateFromDay_def dayWithinYear_def Let_def)
qed

lemma setDate_shift:
  "setDate (fixedZone tz) t (getDate (fixedZone tz) t + k) = timeClip (t + k * msPerDay)"
proof -
  have "dayOf (t + tz) * msPerDay + timeWithinDay (t + tz) = t + tz"
    by (simp add: dayOf_def timeWithinDay_def)
  then have "makeDate (dayOf (t + tz) + k) (timeWithinDay (t + tz)) - tz = t + k * msPerDay"
    by (simp add: makeDate_def algebra_simps)
  then show ?thesis
    by (simp add: setDate_def getDate_def makeDay_roundtrip localTime_def utcTime_def
          fixedZone_def)
qed

lemma toInteger_of_int: "toInteger (of_int h) = h"
  by (simp add: toInteger_def)

lemma reference_day_near:
  assumes "0 \<le> h" "h < 24" "0 \<le> m" "m < 60"
  shows "now - msPerDay < timeOnReferenceDay tz now h m"
    and "timeOnReferenceDay tz now h m < now + msPerDay"
proof -
  have d: "dayOf (now + tz) * msPerDay = now + tz - (now + tz) mod msPerDay"
    by (simp add: dayOf_def algebra_simps minus_mod_eq_mult_div [symmetric])
  have r: "0 \<le> (now + tz) mod msPerDay" "(now + tz) mod msPerDay < msPerDay"
    by (simp_all add: msPerDay_def)
  from assms have hm: "0 \<le> h * 3600000 + m * 60000" "h * 3600000 + m * 60000 < msPerDay"
    by (simp_all add: msPerDay_def)
  from d r hm show "now - msPerDay < timeOnReferenceDay tz now h m"
    unfolding timeOnReferenceDay_def by linarith
  from d r hm show "timeOnReferenceDay tz now h m < now + msPerDay"
    unfolding timeOnReferenceDay_def by linarith
qed


section \<open>Properties of the schedule calculator\<close>

text \<open>
  The daily rule on a host without daylight-saving time, at the constant offset \<open>tz\<close>:
  for a time-of-day whose fields are \<open>h\<close> hours and \<open>m\<close> minutes the result is the
  reference day at that local time if that instant is strictly after \<open>now\<close>, and 24
  hours later otherwise (\<open>now\<close> lying at least two days inside the range of time
  values).
\<close>

lemma daily_on_fixed_zone:
  assumes tf: "timeFields timeOfDay = (Fin (of_int h), Fin (of_int m))"
    and hm: "0 \<le> h" "h < 24" "0 \<le> m" "m < 60"
    and clip: "\<bar>now\<bar> \<le> 8640000000000000 - 2 * msPerDay"
  shows "calculateNextRun (fixedZone tz) now ''daily'' timeOfDay dayOfWeek dayOfMonth timezone =
          Some (if now < timeOnReferenceDay tz now h m
                then timeOnReferenceDay tz now h m
                else timeOnReferenceDay tz now h m + msPerDay)"
proof -
  let ?t0 = "timeOnReferenceDay tz now h m"
  from reference_day_near [OF hm, where now = now and tz = tz] clip
  have b0: "\<bar>?t0\<bar> \<le> 8640000000000000"
    and b1: "\<bar>?t0 + 1 * msPerDay\<bar> \<le> 8640000000000000"
    by (simp_all add: msPerDay_def)
  have sh: "setHours (fixedZone tz) (Some now) (Fin (of_int h)) (Fin (of_int m)) = Some ?t0"
    using b0
    by (simp add: setHours_def toInteger_of_int makeDate_def timeOnReferenceDay_def
          timeClip_def localTime_def utcTime_def fixedZone_def)
  show ?thesis
  proof (cases "now < ?t0")
    case True
    then show ?thesis
      by (simp add: calculateNextRun_def tf sh notAfter_def)
  next
    case False
    with b1 show ?thesis
      by (simp add: calculateNextRun_def tf sh notAfter_def setDate_shift timeClip_def)
  qed
qed

text \<open>On a host whose local time is UTC the call with \<open>"09:00"\<close> at 2024-01-01T10:00:00Z
  (1704103200000) returns 2024-01-02T09:00:00Z and at 2024-01-01T08:00:00Z returns
  2024-01-01T09:00:00Z, whatever the timezone argument.\<close>

lemma daily_on_utc_host:
  "calculateNextRun (fixedZone 0) 1704103200000 ''daily'' ''09:00'' None None timezone =
     Some 1704186000000 \<and>
   calculateNextRun (fixedZone 0) 1704096000000 ''daily'' ''09:00'' None None timezone =
     Some 1704099600000"
proof -
  have tf9: "timeFields ''09:00'' = (Fin (of_int 9), Fin (of_int 0))"
    by code_simp
  have c1: "calculateNextRun (fixedZone 0) 1704103200000 ''daily'' ''09:00'' None None timezone =
              Some 1704186000000"
    using daily_on_fixed_zone [OF tf9, of 1704103200000 0 None None timezone]
    by (simp add: timeOnReferenceDay_def dayOf_def msPerDay_def)
  have c2: "calculateNextRun (fixedZone 0) 1704096000000 ''daily'' ''09:00'' None None timezone =
              Some 1704099600000"
    using daily_on_fixed_zone [OF tf9, of 1704096000000 0 None None timezone]
    by (simp add: timeOnReferenceDay_def dayOf_def msPerDay_def)
  from c1 c2 show ?thesis by simp
qed

text \<open>On a host with daylight-saving time the day added by \<open>setDate\<close> is a local day: on
  US Eastern time, at 2024-03-09T15:00:00Z (10:00 local, 1709996400000) the call with
  \<open>"09:00"\<close> returns 09:00 local time of the next day, 2024-03-10T13:00:00Z
  (1710075600000), which is 23 hours after 09:00 of the reference day.\<close>

lemma daily_across_daylight_saving:
  "calculateNextRun easternSpring2024 1709996400000 ''daily'' ''09:00'' None None
     ''America/New_York'' = Some 1710075600000"
  by code_simp

text \<open>
  C1.  The claim: for the daily frequency \<open>calculateNextRun\<close> returns the reference day at
  the given time-of-day if that instant is strictly in the future and the same time-of-day
  one day later otherwise, and \<open>calculateNextRun("daily", "09:00", tz=UTC)\<close> at
  2024-01-01T10:00:00Z (time value 1704103200000) returns 2024-01-02T09:00:00Z
  (1704186000000).  The function takes the time-of-day in the local time of the host and
  never reads the timezone it is given: on a host five hours east of UTC the call with the
  timezone \<open>UTC\<close> returns 09:00 of the host's next day, 2024-01-02T04:00:00Z
  (1704168000000), not 09:00 UTC.
\<close>

theorem calculateNextRun_daily_on_offset_host:
  "calculateNextRun (fixedZone 18000000) 1704103200000 ''daily'' ''09:00'' None None ''UTC'' =
     Some 1704168000000 \<and>
   calculateNextRun (fixedZone 18000000) 1704103200000 ''daily'' ''09:00'' None None ''UTC'' \<noteq>
     Some 1704186000000"
  by code_simp

text \<open>
  C10.  For every frequency, time-of-day, day-of-week, day-of-month and reference
  \<open>now\<close> (and every host zone), any two values of the timezone argument give the same
  result: the timezone parameter has no effect on the computed next-run time.
\<close>

theorem calculateNextRun_timezone_ignored:
  "calculateNextRun zone now frequency timeOfDay dayOfWeek dayOfMonth timezone1 =
   calculateNextRun zone now frequency timeOfDay dayOfWeek dayOfMonth timezone2"
  by (simp add: calculateNextRun_def)


section \<open>Properties of the chart builder\<close>

lemma length_insertBy: "length (insertBy cmp x ys) = Suc (length ys)"
  by (induction ys) simp_all

lemma length_jsSort: "length (jsSort cmp xs) = length xs"
  by (induction xs) (simp_all add: jsSort_def length_insertBy)

lemma length_timeSeriesPoints:
  "length (timeSeriesPoints pd tls dateIndex numericIndex rs)
     \<le> length (filter (\<lambda>row. truthyStr (cell row dateIndex)) rs)"
  by (induction rs) (simp_all add: timeSeriesPoints_def Let_def)

lemma lineChartFor_cases:
  "c \<in> set (lineChartFor pd tls hs rs dateIndex numericCol) \<Longrightarrow>
     chartType c = Line \<and>
     length (chartData c) = length (timeSeriesPoints pd tls dateIndex (the (indexOf hs numericCol)) rs) \<and>
     1 < length (chartData c)"
  by (auto simp: lineChartFor_def Let_def length_jsSort split: if_splits)

lemma lineCharts_cases:
  assumes "c \<in> set (lineCharts pd tls hs rs)"
  shows "\<exists>numericCol. findDateColumns hs \<noteq> [] \<and>
           c \<in> set (lineChartFor pd tls hs rs (the (indexOf hs (hd (findDateColumns hs)))) numericCol)"
  using assms by (auto simp: lineCharts_def Let_def split: if_splits)

lemma other_charts_not_line:
  "c \<in> set (barCharts hs rs @ pieCharts hs rs @ comparisonCharts hs rs) \<Longrightarrow> chartType c \<noteq> Line"
  by (auto simp: barCharts_def pieCharts_def comparisonCharts_def Let_def split: if_splits)

text \<open>
  C6 (as stated).  The claim says that a numeric column with only one row whose date and
  numeric value both parse gets no line chart.  The builder takes a row as a point as soon
  as its date cell is a non-empty string; the date is not parsed before the point is
  pushed (\<open>formatDateLabel\<close> and the sort cope with dates that do not parse).  In the two
  rows below only the first has a date that parses, and a line chart with both rows as
  points is emitted for \<open>clicks\<close>.
\<close>

theorem line_chart_counterexample:
  "parseISODate ''n/a'' = None \<and>
   generateChartData parseISODate usDateString [''date'', ''clicks'']
     [[''2024-01-01'', ''5''], [''n/a'', ''7'']] ''general'' =
   [\<lparr> chartType = Line, chartTitle = ''clicks Over Time'',
      chartData =
        [\<lparr> label = ''1/1/2024'', pointValue = Fin 5, pointDate = Some ''2024-01-01'',
            pointCategory = None \<rparr>,
         \<lparr> label = ''n/a'', pointValue = Fin 7, pointDate = Some ''n/a'',
            pointCategory = None \<rparr>],
      xAxisLabel = Some ''Date'', yAxisLabel = Some ''clicks'', colors = [''#3b82f6''] \<rparr>]"
  by code_simp

text \<open>
  C6 (amended).  Every line chart that \<open>generateChartData\<close> emits has at least 2 points;
  and for every table with a date column, if at most one row has a non-empty value in the
  first date column, no line chart is emitted for any column: line-chart construction
  skips the rows whose date cell is missing or empty, and a chart is pushed only when at
  least 2 points remain.
\<close>

theorem line_chart_needs_two_points:
  "(\<forall>c \<in> set (generateChartData pd tls hs rs reportType).
      chartType c = Line \<longrightarrow> 2 \<le> length (chartData c)) \<and>
   (findDateColumns hs = dateCol # others \<and>
    length (filter (\<lambda>row. truthyStr (cell row (the (indexOf hs dateCol)))) rs) \<le> 1
    \<longrightarrow> (\<forall>c \<in> set (generateChartData pd tls hs rs reportType). chartType c \<noteq> Line))"
proof (intro conjI ballI impI)
  fix c
  assume c: "c \<in> set (generateChartData pd tls hs rs reportType)" and l: "chartType c = Line"
  from c l other_charts_not_line [of c hs rs] have "c \<in> set (lineCharts pd tls hs rs)"
    by (auto simp: generateChartData_def)
  from lineCharts_cases [OF this] lineChartFor_cases show "2 \<le> length (chartData c)"
    by fastforce
next
  fix c
  assume h: "findDateColumns hs = dateCol # others \<and>
    length (filter (\<lambda>row. truthyStr (cell row (the (indexOf hs dateCol)))) rs) \<le> 1"
    and c: "c \<in> set (generateChartData pd tls hs rs reportType)"
  show "chartType c \<noteq> Line"
  proof
    assume l: "chartType c = Line"
    from c l other_charts_not_line [of c hs rs] have "c \<in> set (lineCharts pd tls hs rs)"
      by (auto simp: generateChartData_def)
    from lineCharts_cases [OF this] h obtain numericCol where
      "c \<in> set (lineChartFor pd tls hs rs (the (indexOf hs dateCol)) numericCol)"
      by auto
    from lineChartFor_cases [OF this]
    have "1 < length (timeSeriesPoints pd tls (the (indexOf hs dateCol)) (the (indexOf hs numericCol)) rs)"
      by simp
    with length_timeSeriesPoints [of pd tls "the (indexOf hs dateCol)" "the (indexOf hs numericCol)" rs] h
    show False by simp
  qed
qed

theorem line_chart_needs_two_points_witness:
  "findDateColumns [''date'', ''clicks''] = [''date''] \<and>
   length (filter (\<lambda>row. truthyStr (cell row (the (indexOf [''date'', ''clicks''] ''date''))))
             [[''2024-01-01'', ''5''], [[], ''7'']]) \<le> 1 \<and>
   Line \<notin> set (map chartType (generateChartData parseISODate usDateString [''date'', ''clicks'']
                  [[''2024-01-01'', ''5''], [[], ''7'']] ''general'')) \<and>
   map chartType (generateChartData parseISODate usDateString [''date'', ''clicks'']
                  [[''2024-01-01'', ''5''], [''n/a'', ''7'']] ''general'') = [Line] \<and>
   2 \<le> length (chartData (hd (generateChartData parseISODate usDateString [''date'', ''clicks'']
                  [[''2024-01-01'', ''5''], [''n/a'', ''7'']] ''general'')))"
proof -
  have d: "findDateColumns [''date'', ''clicks''] = ''date'' # []"
    by code_simp
  have n: "length (filter (\<lambda>row. truthyStr (cell row (the (indexOf [''date'', ''clicks''] ''date''))))
             [[''2024-01-01'', ''5''], [[], ''7'']]) \<le> 1"
    by (simp add: truthyStr_def falsy_def cell_def)
  from line_chart_needs_two_points [of parseISODate usDateString "[''date'', ''clicks'']"
      "[[''2024-01-01'', ''5''], [[], ''7'']]" "''general''" "''date''" "[]"] d n
  have none: "Line \<notin> set (map chartType (generateChartData parseISODate usDateString
      [''date'', ''clicks''] [[''2024-01-01'', ''5''], [[], ''7'']] ''general''))"
    by auto
  let ?g = "generateChartData parseISODate usDateString [''date'', ''clicks'']
      [[''2024-01-01'', ''5''], [''n/a'', ''7'']] ''general''"
  have ts: "map chartType ?g = [Line]"
    by code_simp
  then have "hd ?g \<in> set ?g" and "chartType (hd ?g) = Line"
    by (cases ?g; simp)+
  with line_chart_needs_two_points [of parseISODate usDateString "[''date'', ''clicks'']"
      "[[''2024-01-01'', ''5''], [''n/a'', ''7'']]" "''general''"]
  have "2 \<le> length (chartData (hd ?g))"
    by blast
  with d n none ts show ?thesis by simp
qed


section \<open>Properties of the analysis orchestrator\<close>

lemma setKey_keeps: "m k \<noteq> None \<Longrightarrow> setKey m k' v k \<noteq> None"
  by (simp add: setKey_def)

lemma fallback_fold_keeps:
  "m k \<noteq> None \<Longrightarrow>
   foldl (\<lambda>km (header, index).
            let vs = filter (\<lambda>v. v \<noteq> Fin 0) (columnValues rs index)
            in if length vs > 0 \<and> 2 * length vs > length rs
               then setKey km header (sumValues vs) else km) m cols k \<noteq> None"
proof (induction cols arbitrary: m)
  case Nil
  then show ?case by simp
next
  case (Cons c cols)
  obtain header index where c: "c = (header, index)" by (cases c)
  show ?case
    unfolding c foldl_Cons
    by (rule Cons.IH) (use Cons.prems setKey_keeps [of m k] in \<open>auto simp: Let_def\<close>)
qed

lemma fallbackMetrics_keys:
  "fallbackMetrics hs rs ''total_rows'' \<noteq> None \<and> fallbackMetrics hs rs ''total_columns'' \<noteq> None"
  unfolding fallbackMetrics_def
  by (intro conjI fallback_fold_keeps) simp_all

lemma fallback_summary: "summary (createFallbackAnalysis hs rs reportType) \<noteq> []"
  by (simp add: createFallbackAnalysis_def)

lemma decodeResponse_fails:
  assumes "extractJson aiResponse = None \<or>
           (\<exists>j. extractJson aiResponse = Some j \<and>
                (jsonParse j = None \<or> (\<exists>v. jsonParse j = Some v \<and> \<not> isObjectLike v)))"
  shows "\<exists>e. decodeResponse jsonParse aiResponse = Inl e"
  using assms by (auto simp: decodeResponse_def)

text \<open>
  C2.  For every table and every reply of the generation service from which no JSON object
  can be extracted (no text between an opening and a closing brace) or parsed (the engine
  rejects the extracted text, or it is not an object), the response-validation step of
  \<open>analyze\<close> does not fail: it returns the fallback analysis, whose summary is not
  empty and whose \<open>keyMetrics\<close> has the keys \<open>total_rows\<close> and
  \<open>total_columns\<close>.
\<close>

theorem fallback_guarantee:
  assumes "extractJson aiResponse = None \<or>
           (\<exists>j. extractJson aiResponse = Some j \<and>
                (jsonParse j = None \<or> (\<exists>v. jsonParse j = Some v \<and> \<not> isObjectLike v)))"
  shows "validateResponse jsonParse aiResponse hs rs reportType =
           createFallbackAnalysis hs rs reportType \<and>
         summary (validateResponse jsonParse aiResponse hs rs reportType) \<noteq> [] \<and>
         {''total_rows'', ''total_columns''}
           \<subseteq> dom (keyMetrics (validateResponse jsonParse aiResponse hs rs reportType))"
proof -
  from decodeResponse_fails [OF assms] obtain e where "decodeResponse jsonParse aiResponse = Inl e"
    by blast
  then have v: "validateResponse jsonParse aiResponse hs rs reportType =
                  createFallbackAnalysis hs rs reportType"
    by (simp add: validateResponse_def parseAIResponse_def)
  have k: "keyMetrics (createFallbackAnalysis hs rs reportType) = fallbackMetrics hs rs"
    by (simp add: createFallbackAnalysis_def)
  from fallbackMetrics_keys [of hs rs] show ?thesis
    unfolding v k using fallback_summary [of hs rs reportType] by (auto simp: dom_def)
qed

theorem fallback_guarantee_witness:
  "extractJson ''Sorry, {no data} today'' = Some ''{no data}'' \<and>
   summary (validateResponse (\<lambda>s. None) ''Sorry, {no data} today''
              [''campaign'', ''clicks''] [[''email'', ''5''], [''search'', ''20'']] ''ga4'') \<noteq> [] \<and>
   {''total_rows'', ''total_columns''}
     \<subseteq> dom (keyMetrics (validateResponse (\<lambda>s. None) ''Sorry, {no data} today''
              [''campaign'', ''clicks''] [[''email'', ''5''], [''search'', ''20'']] ''ga4''))"
proof -
  have e: "extractJson ''Sorry, {no data} today'' = Some ''{no data}''"
    by code_simp
  then have "extractJson ''Sorry, {no data} today'' = None \<or>
           (\<exists>j. extractJson ''Sorry, {no data} today'' = Some j \<and>
                ((\<lambda>s. None) j = (None :: json option) \<or>
                 (\<exists>v. (\<lambda>s. None) j = Some v \<and> \<not> isObjectLike v)))"
    by simp
  from fallback_guarantee [OF this] e show ?thesis by blast
qed

lemma mapFilterBoolean_insights:
  "mapFilterBoolean validateInsight xs = map (the \<circ> validateInsight) (filter isObjectLike xs)"
  by (induction xs) (simp_all add: mapFilterBoolean_def validateInsight_def)

lemma mapFilterBoolean_recommendations:
  "mapFilterBoolean validateRecommendation xs =
     map (the \<circ> validateRecommendation) (filter isObjectLike xs)"
  by (induction xs) (simp_all add: mapFilterBoolean_def validateRecommendation_def)

text \<open>
  C8 (as stated).  The claim says that no element of the \<open>insights\<close> array is dropped
  for being malformed.  \<open>validateInsight\<close> returns \<open>null\<close> for an element that is not an
  object and \<open>filter(Boolean)\<close> removes it: of the three elements below, a string, \<open>null\<close>
  and an object, only the object becomes an insight.
\<close>

theorem insights_counterexample:
  "insights (resultFromParsed
     (JObject [(''insights'',
        JArray [JString ''CTR is up'', JNull, JObject [(''title'', JString ''Spend'')]])]) [] []) =
   [\<lparr> category = ''General'', title = ''Spend'', description = ''No description available'',
      impact = Medium, metrics = None \<rparr>]"
  by code_simp

text \<open>
  C8 (amended).  For every reply that parses to a JSON object with an \<open>insights\<close>
  array, the result holds one insight for each element of the array that is an object (or
  array), in order, and likewise, when there is a \<open>recommendations\<close> array, one
  recommendation for each such element of it; such an element is never dropped: its
  missing or non-string \<open>category\<close>, \<open>title\<close> and \<open>description\<close> are replaced by the
  placeholder texts and an \<open>impact\<close>, \<open>priority\<close> or \<open>effort\<close> outside
  high/medium/low becomes medium.  An element that is not an object (a string, a number, a
  boolean, \<open>null\<close>) is dropped.
\<close>

theorem objects_kept_with_defaults:
  "(decodeResponse jsonParse aiResponse = Inr parsed \<and>
    getProp parsed ''insights'' = Some (JArray xs) \<longrightarrow>
      (\<exists>r. parseAIResponse jsonParse aiResponse hs rs = Inr r \<and>
           insights r = map (the \<circ> validateInsight) (filter isObjectLike xs))) \<and>
   (decodeResponse jsonParse aiResponse = Inr parsed \<and>
    getProp parsed ''recommendations'' = Some (JArray ys) \<longrightarrow>
      (\<exists>r. parseAIResponse jsonParse aiResponse hs rs = Inr r \<and>
           recommendations r = map (the \<circ> validateRecommendation) (filter isObjectLike ys))) \<and>
   (isObjectLike x \<longrightarrow>
      validateInsight x =
        Some \<lparr> category = stringOr (getProp x ''category'') ''General'',
               title = stringOr (getProp x ''title'') ''Insight'',
               description = stringOr (getProp x ''description'') ''No description available'',
               impact = levelOr (getProp x ''impact''),
               metrics = (case getProp x ''metrics'' of
                            Some m \<Rightarrow> if isObjectLike m then Some m else None
                          | None \<Rightarrow> None) \<rparr> \<and>
      validateRecommendation x =
        Some \<lparr> recTitle = stringOr (getProp x ''title'') ''Recommendation'',
               recDescription = stringOr (getProp x ''description'') ''No description available'',
               priority = levelOr (getProp x ''priority''),
               effort = levelOr (getProp x ''effort''),
               expectedImpact = stringOr (getProp x ''expectedImpact'') ''Positive impact expected'' \<rparr>) \<and>
   (\<not> isObjectLike x \<longrightarrow> validateInsight x = None \<and> validateRecommendation x = None) \<and>
   (p \<notin> {Some (JString ''high''), Some (JString ''medium''), Some (JString ''low'')} \<longrightarrow>
      levelOr p = Medium) \<and>
   ((\<forall>s. p \<noteq> Some (JString s)) \<longrightarrow> stringOr p fallback = fallback)"
proof (intro conjI impI)
  assume a: "decodeResponse jsonParse aiResponse = Inr parsed \<and>
    getProp parsed ''insights'' = Some (JArray xs)"
  then have "parseAIResponse jsonParse aiResponse hs rs = Inr (resultFromParsed parsed hs rs)"
    by (simp add: parseAIResponse_def)
  moreover from a have "insights (resultFromParsed parsed hs rs) =
      map (the \<circ> validateInsight) (filter isObjectLike xs)"
    by (simp add: resultFromParsed_def mapFilterBoolean_insights)
  ultimately show "\<exists>r. parseAIResponse jsonParse aiResponse hs rs = Inr r \<and>
           insights r = map (the \<circ> validateInsight) (filter isObjectLike xs)"
    by blast
next
  assume a: "decodeResponse jsonParse aiResponse = Inr parsed \<and>
    getProp parsed ''recommendations'' = Some (JArray ys)"
  then have "parseAIResponse jsonParse aiResponse hs rs = Inr (resultFromParsed parsed hs rs)"
    by (simp add: parseAIResponse_def)
  moreover from a have "recommendations (resultFromParsed parsed hs rs) =
      map (the \<circ> validateRecommendation) (filter isObjectLike ys)"
    by (simp add: resultFromParsed_def mapFilterBoolean_recommendations)
  ultimately show "\<exists>r. parseAIResponse jsonParse aiResponse hs rs = Inr r \<and>
           recommendations r = map (the \<circ> validateRecommendation) (filter isObjectLike ys)"
    by blast
next
  assume "p \<notin> {Some (JString ''high''), Some (JString ''medium''), Some (JString ''low'')}"
  then show "levelOr p = Medium" by (simp add: levelOr_def)
next
  assume "\<forall>s. p \<noteq> Some (JString s)"
  then show "stringOr p fallback = fallback"
    by (auto simp: stringOr_def split: option.splits json.splits)
qed (simp_all add: validateInsight_def validateRecommendation_def)

theorem objects_kept_with_defaults_witness:
  "(\<exists>r. parseAIResponse
          (\<lambda>s. if s = ''{...}''
                then Some (JObject
                  [(''insights'', JArray [JObject [(''impact'', JString ''urgent'')], JString ''n/a'']),
                   (''recommendations'', JArray [JObject [(''effort'', JString ''low'')]])])
                else None)
          ''Result: {...} done'' [] [] = Inr r \<and>
        insights r =
          [\<lparr> category = ''General'', title = ''Insight'',
             description = ''No description available'', impact = Medium, metrics = None \<rparr>]) \<and>
   (\<exists>r. parseAIResponse
          (\<lambda>s. if s = ''{...}''
                then Some (JObject
                  [(''insights'', JArray [JObject [(''impact'', JString ''urgent'')], JString ''n/a'']),
                   (''recommendations'', JArray [JObject [(''effort'', JString ''low'')]])])
                else None)
          ''Result: {...} done'' [] [] = Inr r \<and>
        recommendations r =
          [\<lparr> recTitle = ''Recommendation'', recDescription = ''No description available'',
             priority = Medium, effort = Low, expectedImpact = ''Positive impact expected'' \<rparr>]) \<and>
   validateInsight (JString ''n/a'') = None \<and>
   validateRecommendation (JString ''n/a'') = None \<and>
   levelOr (Some (JNumber (Fin 3))) = Medium \<and>
   stringOr (Some (JNumber (Fin 3))) ''Insight'' = ''Insight''"
proof -
  let ?P = "JObject
      [(''insights'', JArray [JObject [(''impact'', JString ''urgent'')], JString ''n/a'']),
       (''recommendations'', JArray [JObject [(''effort'', JString ''low'')]])]"
  let ?jp = "\<lambda>s. if s = ''{...}'' then Some ?P else None"
  have d: "decodeResponse ?jp ''Result: {...} done'' = Inr ?P"
    by code_simp
  have gi: "getProp ?P ''insights'' =
      Some (JArray [JObject [(''impact'', JString ''urgent'')], JString ''n/a''])"
    by code_simp
  have gr: "getProp ?P ''recommendations'' = Some (JArray [JObject [(''effort'', JString ''low'')]])"
    by code_simp
  have o: "isObjectLike (JObject [(''impact'', JString ''urgent'')])"
    and n: "\<not> isObjectLike (JString ''n/a'')"
    and pl: "Some (JNumber (Fin 3)) \<notin> {Some (JString ''high''), Some (JString ''medium''), Some (JString ''low'')}"
    and ps: "\<forall>s. Some (JNumber (Fin 3)) \<noteq> Some (JString s)"
    by (simp_all add: isObjectLike_def)
  have vi: "map (the \<circ> validateInsight)
        (filter isObjectLike [JObject [(''impact'', JString ''urgent'')], JString ''n/a'']) =
      [\<lparr> category = ''General'', title = ''Insight'',
         description = ''No description available'', impact = Medium, metrics = None \<rparr>]"
    by code_simp
  have vr: "map (the \<circ> validateRecommendation)
        (filter isObjectLike [JObject [(''effort'', JString ''low'')]]) =
      [\<lparr> recTitle = ''Recommendation'', recDescription = ''No description available'',
         priority = Medium, effort = Low, expectedImpact = ''Positive impact expected'' \<rparr>]"
    by code_simp
  note t1 = objects_kept_with_defaults [where jsonParse = ?jp
      and aiResponse = "''Result: {...} done''" and parsed = ?P
      and xs = "[JObject [(''impact'', JString ''urgent'')], JString ''n/a'']"
      and ys = "[JObject [(''effort'', JString ''low'')]]" and hs = "[]" and rs = "[]"
      and x = "JString ''n/a''" and p = "Some (JNumber (Fin 3))" and fallback = "''Insight''"]
  note t2 = objects_kept_with_defaults [where jsonParse = ?jp
      and aiResponse = "''Result: {...} done''" and parsed = ?P
      and xs = "[JObject [(''impact'', JString ''urgent'')], JString ''n/a'']"
      and ys = "[JObject [(''effort'', JString ''low'')]]" and hs = "[]" and rs = "[]"
      and x = "JObject [(''impact'', JString ''urgent'')]" and p = "Some (JNumber (Fin 3))"
      and fallback = "''Insight''"]
  from t2 o have "validateInsight (JObject [(''impact'', JString ''urgent'')]) \<noteq> None"
    by simp
  with t1 d gi gr n pl ps show ?thesis
    unfolding vi vr by blast
qed

end
